theory Spec2Isabelle
  imports Complex_Main
begin

section \<open>JavaScript values\<close>

text \<open>
  A JavaScript number is either \<open>NaN\<close> or a finite value, held here as the rational
  it denotes. Comparisons of finite values are exact; the operations below are the exact
  ones of the rationals, and where the code computes (the touch detection, the map
  loader) their results are rounded to a double, see the section on double precision.
  Infinities and the sign of zero are outside this model. Every operation with a
  \<open>NaN\<close> operand gives \<open>NaN\<close>, every comparison with one is false, and \<open>!=\<close>
  with one is true.
\<close>

datatype jsnum = NaN | Num rat

fun num_truthy :: "jsnum \<Rightarrow> bool" where
  "num_truthy NaN = False"
| "num_truthy (Num r) = (r \<noteq> 0)"

fun num_eq :: "jsnum \<Rightarrow> jsnum \<Rightarrow> bool" where
  "num_eq (Num a) (Num b) = (a = b)"
| "num_eq _ _ = False"

fun num_lt :: "jsnum \<Rightarrow> jsnum \<Rightarrow> bool" where
  "num_lt (Num a) (Num b) = (a < b)"
| "num_lt _ _ = False"

fun num_ge :: "jsnum \<Rightarrow> jsnum \<Rightarrow> bool" where
  "num_ge (Num a) (Num b) = (a \<ge> b)"
| "num_ge _ _ = False"

fun num_add :: "jsnum \<Rightarrow> jsnum \<Rightarrow> jsnum" where
  "num_add (Num a) (Num b) = Num (a + b)"
| "num_add _ _ = NaN"

fun num_sub :: "jsnum \<Rightarrow> jsnum \<Rightarrow> jsnum" where
  "num_sub (Num a) (Num b) = Num (a - b)"
| "num_sub _ _ = NaN"

fun num_mul :: "jsnum \<Rightarrow> jsnum \<Rightarrow> jsnum" where
  "num_mul (Num a) (Num b) = Num (a * b)"
| "num_mul _ _ = NaN"

text \<open>Division by a non-zero constant only (the sources divide by 2).\<close>

fun num_half :: "jsnum \<Rightarrow> jsnum" where
  "num_half (Num a) = Num (a / 2)"
| "num_half NaN = NaN"

fun num_abs :: "jsnum \<Rightarrow> jsnum" where
  "num_abs (Num a) = Num \<bar>a\<bar>"
| "num_abs NaN = NaN"

text \<open>
  Modelled from the spec: the class \<open>Vector3\<close>, which is not among the sources. It is
  the spec's 3-float vector: three numbers, \<open>x\<close>, \<open>y\<close> and \<open>z\<close>. Its constructor
  is taken to default a missing argument to 0, and \<open>equalsVector\<close> to compare the
  components with \<open>===\<close>.
\<close>

datatype vector3 = Vector3 (vx: jsnum) (vy: jsnum) (vz: jsnum)

definition set_vx :: "jsnum \<Rightarrow> vector3 \<Rightarrow> vector3" where
  "set_vx a v = Vector3 a (vy v) (vz v)"

definition set_vy :: "jsnum \<Rightarrow> vector3 \<Rightarrow> vector3" where
  "set_vy a v = Vector3 (vx v) a (vz v)"

definition set_vz :: "jsnum \<Rightarrow> vector3 \<Rightarrow> vector3" where
  "set_vz a v = Vector3 (vx v) (vy v) a"

definition equalsVector :: "vector3 \<Rightarrow> vector3 \<Rightarrow> bool" where
  "equalsVector a b = (num_eq (vx a) (vx b) \<and> num_eq (vy a) (vy b) \<and> num_eq (vz a) (vz b))"

text \<open>
  A value read from an array or from a dynamically typed property: \<open>undefined\<close>, a
  number, a string, a boolean, an array of numbers, or a \<open>Vector3\<close> object.
\<close>

datatype jsval =
    Undefined | JNum jsnum | JStr string | JBool bool | JArr "jsnum list" | JVec vector3

text \<open>\<open>pos[i]\<close>: reading past the end of an array gives \<open>undefined\<close>.\<close>

definition at_index :: "jsnum list \<Rightarrow> nat \<Rightarrow> jsval" where
  "at_index xs i = (if i < length xs then JNum (xs ! i) else Undefined)"

fun truthy :: "jsval \<Rightarrow> bool" where
  "truthy Undefined = False"
| "truthy (JNum n) = num_truthy n"
| "truthy (JStr s) = (s \<noteq> [])"
| "truthy (JBool b) = b"
| "truthy (JArr xs) = True"
| "truthy (JVec v) = True"

text \<open>\<open>a != v\<close> for a number \<open>a\<close> and a value \<open>v\<close> that is a number or \<open>undefined\<close>.\<close>

fun loose_neq :: "jsnum \<Rightarrow> jsval \<Rightarrow> bool" where
  "loose_neq a (JNum b) = (\<not> num_eq a b)"
| "loose_neq a _ = True"

fun val_num :: "jsval \<Rightarrow> jsnum" where
  "val_num (JNum n) = n"
| "val_num _ = NaN"

section \<open>Entities\<close>

text \<open>Objects are held in stores and named by references.\<close>

type_synonym ref = nat

text \<open>
  The fields \<open>Brick\<close>, \<open>Player\<close> and \<open>SoundEmitter\<close> have in common. \<open>netId\<close> is
  \<open>None\<close> once \<open>destroy\<close> has set it to \<open>null\<close> or \<open>undefined\<close>; \<open>steps\<close> are the
  handles of the intervals registered through \<open>setInterval\<close>; \<open>listeners\<close> are
  the names of the events that have a listener (all three classes extend
  \<open>EventEmitter\<close>).
\<close>

record entity =
  netId :: "nat option"
  destroyed :: bool
  steps :: "nat list"
  listeners :: "string list"
  position :: vector3

record body = entity +
  rotation :: vector3
  scale :: vector3

type_synonym tool = ref

record player = body +
  positionDeltaTime :: int
  cameraRotation :: vector3
  alive :: bool
  inventory :: "tool list"
  toolEquipped :: "tool option"
  localBricks :: "ref list"

text \<open>
  \<open>Player.constructor\<close>: the static counter \<open>Player.playerId\<close> is incremented and becomes
  the \<open>netId\<close>; \<open>now\<close> is \<open>Date.now()\<close>.
\<close>

definition zero3 :: vector3 where
  "zero3 = Vector3 (Num 0) (Num 0) (Num 0)"

definition one3 :: vector3 where
  "one3 = Vector3 (Num 1) (Num 1) (Num 1)"

definition Player_new :: "int \<Rightarrow> nat \<Rightarrow> player \<times> nat" where
  "Player_new now playerId =
     (\<lparr> netId = Some (playerId + 1), destroyed = False, steps = [], listeners = [],
        position = zero3,
        rotation = zero3, scale = one3,
        positionDeltaTime = now, cameraRotation = zero3, alive = False,
        inventory = [], toolEquipped = None, localBricks = [] \<rparr>,
      playerId + 1)"

section \<open>Effects\<close>

text \<open>
  The packet builders (\<open>createPlayerIds\<close>, \<open>createAssetIds\<close>, \<open>PacketBuilder\<close>, the tool
  packets) are not among the sources, so a packet is recorded by the call that makes it:
  the builder, the object it reads (as it is at the call) and the tag string or
  modification it is given. What a handler emits and sends is returned as a list of
  effects, in the order of the calls; a packet sent to one socket is addressed by the
  \<open>netId\<close> of the socket's player. Listeners of these events are taken not to
  change the objects while an event is emitted; the listeners of a brick's touch events
  are part of the model of the touch detection.
\<close>

datatype packet =
    PlayerIds player string
  | AssetIds player string
  | ToolCreate tool
  | ToolDestroy tool
  | BrickPacket "nat option" string
  | SoundPacket "nat option" string

datatype effect =
    Moved vector3 jsnum
  | ToolEmit tool string
  | Send "nat option" packet
  | Broadcast packet
  | BroadcastExcept "nat option list" packet

section \<open>Position updates\<close>

text \<open>
  \<open>Player._updatePositionForOthers(pos)\<close>. \<open>now\<close> is the value of \<open>Date.now()\<close>
  at the call (its two reads of the clock are taken to give the same value). A step of the
  chain of \<open>if\<close>s takes the tag string and the player and gives them back.
\<close>

definition changedX :: "jsnum list \<Rightarrow> player \<Rightarrow> bool" where
  "changedX pos p = (truthy (at_index pos 0) \<and> loose_neq (vx (position p)) (at_index pos 0))"

definition changedY :: "jsnum list \<Rightarrow> player \<Rightarrow> bool" where
  "changedY pos p = (truthy (at_index pos 1) \<and> loose_neq (vy (position p)) (at_index pos 1))"

definition changedZ :: "jsnum list \<Rightarrow> player \<Rightarrow> bool" where
  "changedZ pos p = (truthy (at_index pos 2) \<and> loose_neq (vz (position p)) (at_index pos 2))"

definition changedYaw :: "jsnum list \<Rightarrow> player \<Rightarrow> bool" where
  "changedYaw pos p = (truthy (at_index pos 3) \<and> loose_neq (vz (rotation p)) (at_index pos 3))"

text \<open>
  The fifth value is compared with \<open>rotation.x\<close> and stored in \<open>cameraRotation.x\<close>; it
  adds no tag.
\<close>

definition changedCam :: "jsnum list \<Rightarrow> player \<Rightarrow> bool" where
  "changedCam pos p = (truthy (at_index pos 4) \<and> loose_neq (vx (rotation p)) (at_index pos 4))"

definition updX :: "jsnum list \<Rightarrow> string \<times> player \<Rightarrow> string \<times> player" where
  "updX pos s =
     (if changedX pos (snd s)
      then (fst s @ ''A'',
            (snd s)\<lparr>position := set_vx (val_num (at_index pos 0)) (position (snd s))\<rparr>)
      else s)"

definition updY :: "jsnum list \<Rightarrow> string \<times> player \<Rightarrow> string \<times> player" where
  "updY pos s =
     (if changedY pos (snd s)
      then (fst s @ ''B'',
            (snd s)\<lparr>position := set_vy (val_num (at_index pos 1)) (position (snd s))\<rparr>)
      else s)"

definition updZ :: "jsnum list \<Rightarrow> string \<times> player \<Rightarrow> string \<times> player" where
  "updZ pos s =
     (if changedZ pos (snd s)
      then (fst s @ ''C'',
            (snd s)\<lparr>position := set_vz (val_num (at_index pos 2)) (position (snd s))\<rparr>)
      else s)"

definition updYaw :: "jsnum list \<Rightarrow> string \<times> player \<Rightarrow> string \<times> player" where
  "updYaw pos s =
     (if changedYaw pos (snd s)
      then (fst s @ ''F'',
            (snd s)\<lparr>rotation := set_vz (val_num (at_index pos 3)) (rotation (snd s))\<rparr>)
      else s)"

definition updCam :: "jsnum list \<Rightarrow> string \<times> player \<Rightarrow> string \<times> player" where
  "updCam pos s =
     (if changedCam pos (snd s)
      then (fst s,
            (snd s)\<lparr>cameraRotation := set_vx (val_num (at_index pos 4)) (cameraRotation (snd s))\<rparr>)
      else s)"

definition updateFields :: "jsnum list \<Rightarrow> player \<Rightarrow> string \<times> player" where
  "updateFields pos p = updCam pos (updYaw pos (updZ pos (updY pos (updX pos ('''', p)))))"

definition updatePositionForOthers :: "int \<Rightarrow> jsnum list \<Rightarrow> player \<Rightarrow> player \<times> effect list" where
  "updatePositionForOthers now pos p =
     (if now - positionDeltaTime p < 50 then (p, [])
      else case updateFields pos (p\<lparr>positionDeltaTime := now\<rparr>) of (idBuffer, p') \<Rightarrow>
        if idBuffer \<noteq> []
        then (p', [Moved (position p') (vz (rotation p')),
                   BroadcastExcept [netId p'] (PlayerIds p' idBuffer)])
        else (p', []))"

text \<open>
  A session receives a sequence of updates, each with the clock value at its arrival.
  \<open>session\<close> runs them in order and pairs every effect with the clock value of the call
  that produced it; \<open>session_end\<close> is the player after the last one.
\<close>

fun session :: "(int \<times> jsnum list) list \<Rightarrow> player \<Rightarrow> (int \<times> effect) list" where
  "session [] p = []"
| "session ((now, pos) # us) p =
     (case updatePositionForOthers now pos p of (p', outs) \<Rightarrow>
        map (\<lambda>out. (now, out)) outs @ session us p')"

fun session_end :: "(int \<times> jsnum list) list \<Rightarrow> player \<Rightarrow> player" where
  "session_end [] p = p"
| "session_end ((now, pos) # us) p = session_end us (fst (updatePositionForOthers now pos p))"

fun is_broadcast :: "effect \<Rightarrow> bool" where
  "is_broadcast (BroadcastExcept ex pk) = True"
| "is_broadcast _ = False"

definition broadcast_times :: "(int \<times> jsnum list) list \<Rightarrow> player \<Rightarrow> int list" where
  "broadcast_times us p = map fst (filter (\<lambda>e. is_broadcast (snd e)) (session us p))"

text \<open>The tag string of the packets broadcast by one call.\<close>

fun tags_of :: "effect list \<Rightarrow> string" where
  "tags_of [] = []"
| "tags_of (BroadcastExcept ex (PlayerIds p ids) # outs) = ids @ tags_of outs"
| "tags_of (out # outs) = tags_of outs"

section \<open>Tools\<close>

datatype error =
    Rejected string
  | TypeError
  | ProcessExit




section \<open>Bricks\<close>

text \<open>
  \<open>name\<close>, \<open>model\<close> and \<open>shape\<close> are \<open>undefined\<close> until set. \<open>lightRange\<close> is
  declared a number, but the map loader stores the text of the map file in it, so it holds
  any value. \<open>socket\<close> is the reference of the player whose socket a local brick is
  attached to. \<open>hitMonitor\<close> is the handle of the touch-detection interval and
  \<open>playersTouching\<close> the set of players, in insertion order.
\<close>

record brick = body +
  name :: "string option"
  color :: string
  lightEnabled :: bool
  lightColor :: string
  lightRange :: jsval
  visibility :: jsnum
  collision :: bool
  model :: "jsnum option"
  clickable :: bool
  clickDistance :: jsnum
  socket :: "ref option"
  shape :: "string option"
  hitMonitor :: "nat option"
  playersTouching :: "ref list"

text \<open>
  \<open>Brick.constructor(position, scale, color)\<close>, with the class's field initialisers. The
  static counter \<open>Brick.brickId\<close> is incremented and becomes the \<open>netId\<close>. The
  constructor registers the brick's own \<open>newListener\<close> and \<open>removeListener\<close>
  listeners.
\<close>

definition Brick_new :: "vector3 \<Rightarrow> vector3 \<Rightarrow> string \<Rightarrow> nat \<Rightarrow> brick \<times> nat" where
  "Brick_new pos scl col brickId =
     (\<lparr> netId = Some (brickId + 1), destroyed = False, steps = [],
        listeners = [''newListener'', ''removeListener''], position = pos,
        rotation = zero3, scale = scl,
        name = None, color = col, lightEnabled = False, lightColor = ''#000000'',
        lightRange = JNum (Num 5), visibility = Num 1, collision = True, model = None,
        clickable = False, clickDistance = Num 50, socket = None, shape = None,
        hitMonitor = None, playersTouching = [] \<rparr>,
      brickId + 1)"

text \<open>The default arguments of the constructor.\<close>

definition Brick_default :: "nat \<Rightarrow> brick \<times> nat" where
  "Brick_default brickId = Brick_new zero3 one3 ''#C0C0C0'' brickId"

section \<open>Sound emitters\<close>

record soundEmitter = entity +
  sound :: jsnum
  volume :: jsnum
  pitch :: jsnum
  soundRange :: jsnum
  loop :: bool
  global :: bool

text \<open>\<open>SoundEmitter.constructor(sound, position, range)\<close>.\<close>

definition SoundEmitter_new :: "jsnum \<Rightarrow> vector3 \<Rightarrow> jsnum \<Rightarrow> nat \<Rightarrow> soundEmitter \<times> nat" where
  "SoundEmitter_new snd_id pos rng soundEmitterId =
     (\<lparr> netId = Some (soundEmitterId + 1), destroyed = False, steps = [], listeners = [],
        position = pos, sound = snd_id, volume = Num 1, pitch = Num 1, soundRange = rng,
        loop = False, global = False \<rparr>,
      soundEmitterId + 1)"

section \<open>Numbers at double precision\<close>

text \<open>
  A JavaScript number is a double: the sum, difference, product or quotient of two numbers
  is the exact result rounded to the nearest double, a tie going to the even significand,
  and so is the value of a decimal literal. \<open>double\<close> is that rounding on the rationals:
  a significand of 53 bits, and the denormalised numbers below the exponent -1022. A
  result beyond the largest double, which JavaScript turns into an infinity, is outside
  the model, as the infinities are.
\<close>

definition two_pow :: "int \<Rightarrow> rat" where
  "two_pow k = (if 0 \<le> k then 2 ^ nat k else 1 / 2 ^ nat (- k))"

text \<open>The number of binary digits of a positive integer.\<close>

function bit_length :: "int \<Rightarrow> int" where
  "bit_length a = (if a \<le> 0 then 0 else bit_length (a div 2) + 1)"
  by pat_completeness auto
termination
  by (relation "measure nat") auto

text \<open>The binary exponent of the fraction \<open>a / b\<close>, both positive: the greatest \<open>e\<close> with
  \<open>2 ^ e \<le> a / b\<close>.\<close>

definition ilog2 :: "int \<Rightarrow> int \<Rightarrow> int" where
  "ilog2 a b =
     (let c = bit_length a - bit_length b
      in if (if 0 \<le> c then b * 2 ^ nat c \<le> a else b \<le> a * 2 ^ nat (- c)) then c else c - 1)"

text \<open>The integer nearest to \<open>x / y\<close>, the even one of two that are equally near.\<close>

definition nearest :: "int \<Rightarrow> int \<Rightarrow> int" where
  "nearest x y =
     (let d = x div y; r = x mod y
      in if 2 * r < y then d else if y < 2 * r then d + 1
         else if even d then d else d + 1)"

definition double :: "rat \<Rightarrow> rat" where
  "double q =
     (case quotient_of q of (a, b) \<Rightarrow>
        if a = 0 then 0
        else (let k = max (ilog2 \<bar>a\<bar> b) (- 1022) - 52;
                  n = (if 0 \<le> k then nearest \<bar>a\<bar> (b * 2 ^ nat k)
                       else nearest (\<bar>a\<bar> * 2 ^ nat (- k)) b)
              in of_int (sgn a * n) * two_pow k))"

fun rounded :: "jsnum \<Rightarrow> jsnum" where
  "rounded NaN = NaN"
| "rounded (Num q) = Num (double q)"

text \<open>The operators \<open>+\<close>, \<open>-\<close>, \<open>*\<close> and \<open>/ 2\<close> on doubles.\<close>

definition fl_add :: "jsnum \<Rightarrow> jsnum \<Rightarrow> jsnum" where
  "fl_add a b = rounded (num_add a b)"

definition fl_sub :: "jsnum \<Rightarrow> jsnum \<Rightarrow> jsnum" where
  "fl_sub a b = rounded (num_sub a b)"

definition fl_mul :: "jsnum \<Rightarrow> jsnum \<Rightarrow> jsnum" where
  "fl_mul a b = rounded (num_mul a b)"

definition fl_half :: "jsnum \<Rightarrow> jsnum" where
  "fl_half a = rounded (num_half a)"

section \<open>Touch detection\<close>

text \<open>
  \<open>Brick._hitDetection\<close>. \<open>touched\<close> is the flag computed for one player: it starts
  true and is cleared when, on some axis, the distance of the centres is at least the sum
  of the half extents plus 0.4, all in double arithmetic (the literal \<open>0.4\<close> is the
  double nearest to 4/10).
\<close>

definition axis_apart :: "jsnum \<Rightarrow> jsnum \<Rightarrow> jsnum \<Rightarrow> jsnum \<Rightarrow> bool" where
  "axis_apart origin center sz scl =
     num_ge (num_abs (fl_sub origin center))
       (fl_add (fl_add sz scl) (Num (double (4 / 10))))"

definition touched :: "brick \<Rightarrow> player \<Rightarrow> bool" where
  "touched b p =
     (let scale0 = fl_half (vx (scale b));
          scale1 = fl_half (vy (scale b));
          scale2 = fl_half (vz (scale b));
          origin0 = fl_add (vx (position b)) scale0;
          origin1 = fl_add (vy (position b)) scale1;
          origin2 = fl_add (vz (position b)) scale2;
          size0 = vx (scale p);
          size1 = vy (scale p);
          size2 = fl_half (fl_mul (Num 5) (vz (scale p)));
          center0 = vx (position p);
          center1 = vy (position p);
          center2 = fl_add (vz (position p)) size2
      in \<not> axis_apart origin0 center0 size0 scale0 \<and>
         \<not> axis_apart origin1 center1 size1 scale1 \<and>
         \<not> axis_apart origin2 center2 size2 scale2)"

datatype touch_event = Touching ref | TouchingEnded ref

text \<open>\<open>Set.add\<close> and \<open>Set.delete\<close> on a set kept in insertion order.\<close>

definition set_add :: "ref \<Rightarrow> ref list \<Rightarrow> ref list" where
  "set_add r xs = (if r \<in> set xs then xs else xs @ [r])"

definition set_delete :: "ref \<Rightarrow> ref list \<Rightarrow> ref list" where
  "set_delete r xs = removeAll r xs"

text \<open>
  \<open>emit\<close> runs the listeners of the event before it returns, and a listener is handed
  the player: the listener of the class's own example calls \<open>player.kill()\<close>, which
  clears \<open>alive\<close> at once. So the listeners of a brick's two touch events are part of
  the model, each by what it does to the store of the players when the event is emitted
  for the player \<open>r\<close>. They are taken to return, and not to touch the brick or the array
  \<open>Game.players\<close> during the scan.
\<close>

record touch_listeners =
  onTouching :: "ref \<Rightarrow> (ref \<Rightarrow> player) \<Rightarrow> (ref \<Rightarrow> player)"
  onTouchingEnded :: "ref \<Rightarrow> (ref \<Rightarrow> player) \<Rightarrow> (ref \<Rightarrow> player)"

text \<open>No listener that changes a player.\<close>

definition no_listeners :: touch_listeners where
  "no_listeners = \<lparr> onTouching = (\<lambda>r h. h), onTouchingEnded = (\<lambda>r h. h) \<rparr>"

text \<open>
  The listener of the example in the documentation of \<open>Brick.touching\<close>,
  \<open>(player) => { player.kill() }\<close>: \<open>Player.kill\<close> returns at once for a player that
  is not alive, and else clears \<open>alive\<close> before anything is awaited.
\<close>

definition kill :: "ref \<Rightarrow> (ref \<Rightarrow> player) \<Rightarrow> (ref \<Rightarrow> player)" where
  "kill r h = (if alive (h r) then h(r := (h r)\<lparr>alive := False\<rparr>) else h)"

definition kill_on_touch :: touch_listeners where
  "kill_on_touch = \<lparr> onTouching = kill, onTouchingEnded = (\<lambda>r h. h) \<rparr>"

text \<open>
  One turn of the loop over the players: \<open>h\<close> is the store of the players, \<open>ts\<close> the
  touching-set. The flag \<open>touched\<close> is computed once, at the start of the turn;
  \<open>p.alive\<close> is read before the \<open>touching\<close> event is emitted and again after it.
\<close>

definition hitPlayer ::
  "brick \<Rightarrow> touch_listeners \<Rightarrow> ref \<Rightarrow> ref list \<Rightarrow> (ref \<Rightarrow> player) \<Rightarrow>
     ref list \<times> touch_event list \<times> (ref \<Rightarrow> player)" where
  "hitPlayer b fx r ts h =
     (let t = touched b (h r);
          go = (t \<and> alive (h r));
          ts1 = (if go then set_add r ts else ts);
          ev1 = (if go then [Touching r] else []);
          h1 = (if go then onTouching fx r h else h)
      in if r \<in> set ts1 \<and> (\<not> t \<or> \<not> alive (h1 r))
         then (set_delete r ts1, ev1 @ [TouchingEnded r], onTouchingEnded fx r h1)
         else (ts1, ev1, h1))"

fun hitLoop ::
  "brick \<Rightarrow> touch_listeners \<Rightarrow> ref list \<Rightarrow> ref list \<Rightarrow> (ref \<Rightarrow> player) \<Rightarrow>
     ref list \<times> touch_event list \<times> (ref \<Rightarrow> player)" where
  "hitLoop b fx [] ts h = (ts, [], h)"
| "hitLoop b fx (r # rs) ts h =
     (case hitPlayer b fx r ts h of (ts', ev, h') \<Rightarrow>
        (case hitLoop b fx rs ts' h' of (ts'', evs, h'') \<Rightarrow> (ts'', ev @ evs, h'')))"

text \<open>
  The players scanned: the player of the brick's socket for a local brick, else
  \<open>Game.players\<close>.
\<close>

definition scanned :: "brick \<Rightarrow> ref list \<Rightarrow> ref list" where
  "scanned b gamePlayers = (case socket b of Some pl \<Rightarrow> [pl] | None \<Rightarrow> gamePlayers)"

definition hitDetection ::
  "brick \<Rightarrow> touch_listeners \<Rightarrow> (ref \<Rightarrow> player) \<Rightarrow> ref list \<Rightarrow>
     brick \<times> touch_event list \<times> (ref \<Rightarrow> player)" where
  "hitDetection b fx h gamePlayers =
     (case hitLoop b fx (scanned b gamePlayers) (playersTouching b) h of
        (ts, evs, h') \<Rightarrow> (b\<lparr>playersTouching := ts\<rparr>, evs, h'))"

text \<open>
  The callback of the interval set by \<open>Brick._detectTouching\<close>, run every 100 ms:
  destroyed players are dropped from the touching-set, and the detection runs unless
  \<open>Game.players\<close> is empty. It returns the brick, the events emitted, in order, and
  the players as the listeners leave them.
\<close>

definition pruned :: "brick \<Rightarrow> (ref \<Rightarrow> player) \<Rightarrow> ref list" where
  "pruned b h = filter (\<lambda>p. \<not> destroyed (h p)) (playersTouching b)"

definition hitMonitorTick ::
  "brick \<Rightarrow> touch_listeners \<Rightarrow> (ref \<Rightarrow> player) \<Rightarrow> ref list \<Rightarrow>
     brick \<times> touch_event list \<times> (ref \<Rightarrow> player)" where
  "hitMonitorTick b fx h gamePlayers =
     (let b1 = b\<lparr>playersTouching := pruned b h\<rparr>
      in if gamePlayers = [] then (b1, [], h) else hitDetection b1 fx h gamePlayers)"

text \<open>The three parts of the result of a cycle.\<close>

definition brick_after :: "brick \<times> touch_event list \<times> (ref \<Rightarrow> player) \<Rightarrow> brick" where
  "brick_after res = fst res"

definition events_of :: "brick \<times> touch_event list \<times> (ref \<Rightarrow> player) \<Rightarrow> touch_event list" where
  "events_of res = fst (snd res)"

definition players_after ::
  "brick \<times> touch_event list \<times> (ref \<Rightarrow> player) \<Rightarrow> (ref \<Rightarrow> player)" where
  "players_after res = snd (snd res)"

text \<open>
  The players as they are when the turn of the \<open>i\<close>-th scanned player comes: after the
  turns of the players before it.
\<close>

definition players_at_turn ::
  "brick \<Rightarrow> touch_listeners \<Rightarrow> (ref \<Rightarrow> player) \<Rightarrow> ref list \<Rightarrow> nat \<Rightarrow> (ref \<Rightarrow> player)" where
  "players_at_turn b fx h gamePlayers i =
     snd (snd (hitLoop b fx (take i (scanned b gamePlayers)) (pruned b h) h))"

text \<open>How often an event was emitted in a cycle.\<close>

definition emitted :: "touch_event \<Rightarrow> touch_event list \<Rightarrow> nat" where
  "emitted e evs = length (filter (\<lambda>x. x = e) evs)"

section \<open>The game and its stores\<close>

text \<open>
  Bricks, sound emitters and players are objects held by reference: \<open>Game.world.bricks\<close>,
  \<open>Game.world.sounds\<close>, \<open>Game.players\<close> and a player's \<open>localBricks\<close> are arrays of
  references. \<open>timers\<close> is the set of the interval handles that are still scheduled;
  \<open>clearInterval\<close> takes a handle out of it.
\<close>

record game =
  brickStore :: "ref \<Rightarrow> brick"
  soundStore :: "ref \<Rightarrow> soundEmitter"
  playerStore :: "ref \<Rightarrow> player"
  world_bricks :: "ref list"
  world_sounds :: "ref list"
  players :: "ref list"
  timers :: "nat set"

definition clearInterval :: "nat option \<Rightarrow> nat set \<Rightarrow> nat set" where
  "clearInterval t ts = (case t of None \<Rightarrow> ts | Some i \<Rightarrow> ts - {i})"

text \<open>\<open>this._steps.forEach((loop) => clearInterval(loop))\<close>\<close>

definition clearSteps :: "nat list \<Rightarrow> nat set \<Rightarrow> nat set" where
  "clearSteps ls ts = fold (\<lambda>l acc. clearInterval (Some l) acc) ls ts"

text \<open>
  \<open>array.indexOf(x)\<close> followed by \<open>array.splice(index, 1)\<close> when the index is not -1:
  the first occurrence is taken out.
\<close>

definition splice_out :: "ref \<Rightarrow> ref list \<Rightarrow> ref list" where
  "splice_out r xs = remove1 r xs"

text \<open>\<open>Brick._cleanup\<close>: the touch interval, the listeners, the brick's own intervals.\<close>

definition cleanup :: "ref \<Rightarrow> game \<Rightarrow> game" where
  "cleanup r g =
     (let b = brickStore g r;
          ts1 = clearInterval (hitMonitor b) (timers g);
          b1 = b\<lparr>listeners := []\<rparr>;
          ts2 = clearSteps (steps b) ts1
      in g\<lparr>brickStore := (brickStore g)(r := b1), timers := ts2\<rparr>)"

text \<open>
  \<open>createBrickPacket(brick, "destroy")\<close>: the packet holds the brick's \<open>netId\<close> and the
  modification; it goes to the socket of a local brick, to everyone otherwise.
\<close>

definition createBrickPacket :: "game \<Rightarrow> brick \<Rightarrow> string \<Rightarrow> effect" where
  "createBrickPacket g b modification =
     (case socket b of
        Some pl \<Rightarrow> Send (netId (playerStore g pl)) (BrickPacket (netId b) modification)
      | None \<Rightarrow> Broadcast (BrickPacket (netId b) modification))"

text \<open>
  \<open>Brick.destroy\<close>, called on the brick at reference \<open>r\<close>. The method is
  \<open>async\<close>: what stands before \<open>await createBrickPacket(this, "destroy")\<close> runs when
  it is called, the packet included, and what stands after it runs once the packet's
  promise has resolved, after whatever else the program did in between (another call of
  \<open>destroy\<close>, for one). So the call is two steps. \<open>Brick_destroy_begin\<close> is the
  first: it returns the rejection, or \<open>Inr ()\<close> for a promise that is still pending.
  \<open>Brick_destroy_resume\<close> is the second, and only it sets \<open>destroyed\<close>.
\<close>

definition Brick_destroy_begin :: "ref \<Rightarrow> game \<Rightarrow> (error + unit) \<times> game \<times> effect list" where
  "Brick_destroy_begin r g =
     (if destroyed (brickStore g r)
      then (Inl (Rejected ''Brick has already been destroyed.''), g, [])
      else
        (let g1 = cleanup r g;
             b = brickStore g1 r;
             g2 = (case socket b of
                     None \<Rightarrow> g1\<lparr>world_bricks := splice_out r (world_bricks g1)\<rparr>
                   | Some pl \<Rightarrow>
                       g1\<lparr>playerStore := (playerStore g1)
                            (pl := (playerStore g1 pl)
                               \<lparr>localBricks := splice_out r (localBricks (playerStore g1 pl))\<rparr>)\<rparr>);
             out = createBrickPacket g2 b ''destroy''
         in (Inr (), g2, [out])))"



text \<open>
  \<open>SoundEmitter.destroy\<close>, called on the sound emitter at reference \<open>r\<close>, in the same
  two steps around \<open>await createSoundPacket(this, "destroy")\<close>.
\<close>

definition SoundEmitter_destroy_begin ::
  "ref \<Rightarrow> game \<Rightarrow> (error + unit) \<times> game \<times> effect list" where
  "SoundEmitter_destroy_begin r g =
     (if destroyed (soundStore g r)
      then (Inl (Rejected ''Sound emitter has already been destroyed.''), g, [])
      else
        (let s = soundStore g r;
             ts = clearSteps (steps s) (timers g);
             s1 = s\<lparr>listeners := []\<rparr>;
             sounds = splice_out r (world_sounds g);
             out = Broadcast (SoundPacket (netId s1) ''destroy'')
         in (Inr (),
             g\<lparr>soundStore := (soundStore g)(r := s1), world_sounds := sounds, timers := ts\<rparr>,
             [out])))"




definition Game_newSoundEmitter :: "ref \<Rightarrow> game \<Rightarrow> game" where
  "Game_newSoundEmitter r g = g\<lparr>world_sounds := world_sounds g @ [r]\<rparr>"


section \<open>Identifiers\<close>

text \<open>
  The static counters \<open>Brick.brickId\<close>, \<open>Player.playerId\<close> and
  \<open>SoundEmitter.soundEmitterId\<close>, all 0 when the process starts. A process constructs
  entities in some order; \<open>constructions\<close> gives the entities as their constructors
  return them. The counters are natural numbers here: a JavaScript number counts exactly
  up to \<open>2^53\<close>.
\<close>

record counters =
  brickId :: nat
  playerId :: nat
  soundEmitterId :: nat

datatype construction =
    NewBrick vector3 vector3 string
  | NewPlayer int
  | NewSoundEmitter jsnum vector3 jsnum

datatype object = BrickObj brick | PlayerObj player | SoundObj soundEmitter

fun construct :: "construction \<Rightarrow> counters \<Rightarrow> object \<times> counters" where
  "construct (NewBrick pos scl col) c =
     (case Brick_new pos scl col (brickId c) of (b, n) \<Rightarrow> (BrickObj b, c\<lparr>brickId := n\<rparr>))"
| "construct (NewPlayer now) c =
     (case Player_new now (playerId c) of (p, n) \<Rightarrow> (PlayerObj p, c\<lparr>playerId := n\<rparr>))"
| "construct (NewSoundEmitter s pos rng) c =
     (case SoundEmitter_new s pos rng (soundEmitterId c) of
        (e, n) \<Rightarrow> (SoundObj e, c\<lparr>soundEmitterId := n\<rparr>))"

fun constructions :: "construction list \<Rightarrow> counters \<Rightarrow> object list" where
  "constructions [] c = []"
| "constructions (k # ks) c =
     (case construct k c of (obj, c') \<Rightarrow> obj # constructions ks c')"

fun obj_netId :: "object \<Rightarrow> nat option" where
  "obj_netId (BrickObj b) = netId b"
| "obj_netId (PlayerObj p) = netId p"
| "obj_netId (SoundObj s) = netId s"

fun same_kind :: "object \<Rightarrow> object \<Rightarrow> bool" where
  "same_kind (BrickObj a) (BrickObj b) = True"
| "same_kind (PlayerObj a) (PlayerObj b) = True"
| "same_kind (SoundObj a) (SoundObj b) = True"
| "same_kind _ _ = False"

text \<open>The counter of an object's class.\<close>

fun counter_of :: "object \<Rightarrow> counters \<Rightarrow> nat" where
  "counter_of (BrickObj b) c = brickId c"
| "counter_of (PlayerObj p) c = playerId c"
| "counter_of (SoundObj s) c = soundEmitterId c"

definition process_start :: counters where
  "process_start = \<lparr> brickId = 0, playerId = 0, soundEmitterId = 0 \<rparr>"

section \<open>A small game\<close>




section \<open>The brick serializer\<close>

text \<open>
  \<open>data\<close> is the object a brick is written to: its keys with their values, in the order
  they were set. \<open>emit_if c kvs\<close> is \<open>if (c) { data.k = v; ... }\<close>.
\<close>

type_synonym data = "(string \<times> jsval) list"

definition emit_if :: "bool \<Rightarrow> data \<Rightarrow> data" where
  "emit_if c kvs = (if c then kvs else [])"

definition vec_array :: "vector3 \<Rightarrow> jsval" where
  "vec_array v = JArr [vx v, vy v, vz v]"

text \<open>\<open>const DEFAULT_BRICK = new Brick()\<close>, made when the module is loaded.\<close>

definition DEFAULT_BRICK :: brick where
  "DEFAULT_BRICK = fst (Brick_default 0)"

text \<open>The body of the \<open>forEach\<close> of \<open>serialize\<close>: the object pushed for one brick.\<close>

definition brick_data :: "brick \<Rightarrow> data" where
  "brick_data b =
     emit_if (\<not> equalsVector (position b) (position DEFAULT_BRICK))
       [(''position'', vec_array (position b))] @
     emit_if (\<not> equalsVector (scale b) (scale DEFAULT_BRICK))
       [(''scale'', vec_array (scale b))] @
     emit_if (color b \<noteq> color DEFAULT_BRICK) [(''color'', JStr (color b))] @
     emit_if (num_lt (visibility b) (Num 1)) [(''visibility'', JNum (visibility b))] @
     emit_if (\<not> collision b) [(''collision'', JBool False)] @
     (case name b of None \<Rightarrow> [] | Some s \<Rightarrow> emit_if (truthy (JStr s)) [(''name'', JStr s)]) @
     emit_if (\<not> equalsVector (rotation b) (rotation DEFAULT_BRICK))
       [(''rotation'', vec_array (rotation b))] @
     (case model b of None \<Rightarrow> [] | Some m \<Rightarrow> emit_if (truthy (JNum m)) [(''model'', JNum m)]) @
     emit_if (lightEnabled b)
       [(''lightEnabled'', JBool True), (''lightColor'', JStr (lightColor b)),
        (''lightRange'', lightRange b)] @
     emit_if (clickable b)
       [(''clickable'', JBool True), (''clickDistance'', JNum (clickDistance b))]"

text \<open>
  \<open>JSON.stringify\<close> followed by \<open>zlib.deflateSync\<close>, and \<open>zlib.inflateSync\<close>,
  \<open>toString("ascii")\<close> and \<open>JSON.parse\<close>, are the platform's; they are a parameter,
  with the buffer type left open.
\<close>

record 'buf codec =
  encode :: "data list \<Rightarrow> 'buf"
  decode :: "'buf \<Rightarrow> data list"

definition serialize :: "'buf codec \<Rightarrow> brick list \<Rightarrow> 'buf" where
  "serialize c bricks = encode c (map brick_data bricks)"

text \<open>
  \<open>new Vector3(...array)\<close>: the elements of the array are the arguments, in order.
\<close>

definition Vector3_spread :: "jsnum list \<Rightarrow> vector3" where
  "Vector3_spread xs =
     Vector3 (if 0 < length xs then xs ! 0 else Num 0)
             (if 1 < length xs then xs ! 1 else Num 0)
             (if 2 < length xs then xs ! 2 else Num 0)"

text \<open>
  \<open>newBrick[prop] = brick[prop]\<close>, after an array has been made a \<open>Vector3\<close>. The
  fields of a brick are typed here; a value that the field cannot hold, or a property
  that is not one of those \<open>serialize\<close> writes, gives \<open>None\<close>: the model says nothing
  about such an assignment.
\<close>

definition assignProp :: "string \<Rightarrow> jsval \<Rightarrow> brick \<Rightarrow> brick option" where
  "assignProp prop v b =
     (case (case v of JArr xs \<Rightarrow> JVec (Vector3_spread xs) | _ \<Rightarrow> v) of
        JVec w \<Rightarrow>
          if prop = ''position'' then Some (b\<lparr>position := w\<rparr>)
          else if prop = ''scale'' then Some (b\<lparr>scale := w\<rparr>)
          else if prop = ''rotation'' then Some (b\<lparr>rotation := w\<rparr>)
          else if prop = ''lightRange'' then Some (b\<lparr>lightRange := JVec w\<rparr>)
          else None
      | JStr s \<Rightarrow>
          if prop = ''color'' then Some (b\<lparr>color := s\<rparr>)
          else if prop = ''name'' then Some (b\<lparr>name := Some s\<rparr>)
          else if prop = ''lightColor'' then Some (b\<lparr>lightColor := s\<rparr>)
          else if prop = ''lightRange'' then Some (b\<lparr>lightRange := JStr s\<rparr>)
          else None
      | JNum n \<Rightarrow>
          if prop = ''visibility'' then Some (b\<lparr>visibility := n\<rparr>)
          else if prop = ''model'' then Some (b\<lparr>model := Some n\<rparr>)
          else if prop = ''clickDistance'' then Some (b\<lparr>clickDistance := n\<rparr>)
          else if prop = ''lightRange'' then Some (b\<lparr>lightRange := JNum n\<rparr>)
          else None
      | JBool t \<Rightarrow>
          if prop = ''collision'' then Some (b\<lparr>collision := t\<rparr>)
          else if prop = ''lightEnabled'' then Some (b\<lparr>lightEnabled := t\<rparr>)
          else if prop = ''clickable'' then Some (b\<lparr>clickable := t\<rparr>)
          else if prop = ''lightRange'' then Some (b\<lparr>lightRange := JBool t\<rparr>)
          else None
      | Undefined \<Rightarrow>
          if prop = ''lightRange'' then Some (b\<lparr>lightRange := Undefined\<rparr>) else None
      | JArr xs \<Rightarrow> None)"

text \<open>\<open>Object.keys(brick).forEach(...)\<close>\<close>

fun assignAll :: "data \<Rightarrow> brick \<Rightarrow> brick option" where
  "assignAll [] b = Some b"
| "assignAll ((prop, v) # d) b =
     (case assignProp prop v b of None \<Rightarrow> None | Some b' \<Rightarrow> assignAll d b')"

text \<open>
  \<open>new Brick(brick.position, brick.scale, brick.color)\<close>: a property the object lacks
  is \<open>undefined\<close> and leaves the constructor's default. (The constructor is handed the
  array as it is; the loop then stores the \<open>Vector3\<close> made of it.)
\<close>

definition arg_vector :: "jsval option \<Rightarrow> vector3 \<Rightarrow> vector3" where
  "arg_vector v dflt = (case v of Some (JArr xs) \<Rightarrow> Vector3_spread xs | _ \<Rightarrow> dflt)"

definition arg_string :: "jsval option \<Rightarrow> string \<Rightarrow> string" where
  "arg_string v dflt = (case v of Some (JStr s) \<Rightarrow> s | _ \<Rightarrow> dflt)"

definition reviveBrick :: "data \<Rightarrow> nat \<Rightarrow> (brick \<times> nat) option" where
  "reviveBrick d bid =
     (case Brick_new (arg_vector (map_of d ''position'') zero3)
                     (arg_vector (map_of d ''scale'') one3)
                     (arg_string (map_of d ''color'') ''#C0C0C0'') bid of
        (newBrick, n) \<Rightarrow>
          (case assignAll d newBrick of None \<Rightarrow> None | Some b \<Rightarrow> Some (b, n)))"

fun reviveAll :: "data list \<Rightarrow> nat \<Rightarrow> (brick list \<times> nat) option" where
  "reviveAll [] bid = Some ([], bid)"
| "reviveAll (d # ds) bid =
     (case reviveBrick d bid of
        None \<Rightarrow> None
      | Some (b, n) \<Rightarrow>
          (case reviveAll ds n of None \<Rightarrow> None | Some (bs, n') \<Rightarrow> Some (b # bs, n')))"

text \<open>
  \<open>deserialize(data)\<close>; \<open>bid\<close> is the value of \<open>Brick.brickId\<close> at the call, and
  the result carries the value after it.
\<close>

definition deserialize :: "'buf codec \<Rightarrow> nat \<Rightarrow> 'buf \<Rightarrow> (brick list \<times> nat) option" where
  "deserialize c bid buf = reviveAll (decode c buf) bid"

text \<open>
  A codec that gives back the objects it was given, as JSON and zlib do for finite numbers
  and 7-bit text.
\<close>

definition lossless :: "data list codec" where
  "lossless = \<lparr> encode = (\<lambda>ds. ds), decode = (\<lambda>ds. ds) \<rparr>"

text \<open>The keys of an object, and the entries of one key.\<close>

definition keys :: "data \<Rightarrow> string set" where
  "keys d = fst ` set d"

definition entries :: "string \<Rightarrow> data \<Rightarrow> data" where
  "entries k d = filter (\<lambda>kv. fst kv = k) d"

text \<open>What a field holds after the round trip, for a field that is written on a condition.\<close>

definition name_kept :: "brick \<Rightarrow> string option" where
  "name_kept b = (case name b of Some s \<Rightarrow> (if s \<noteq> [] then Some s else None) | None \<Rightarrow> None)"

definition model_kept :: "brick \<Rightarrow> jsnum option" where
  "model_kept b = (case model b of Some m \<Rightarrow> (if num_truthy m then Some m else None) | None \<Rightarrow> None)"

text \<open>The value a typed field takes from a value of the object.\<close>

definition to_vec :: "jsval \<Rightarrow> vector3" where
  "to_vec v = (case v of JArr xs \<Rightarrow> Vector3_spread xs | JVec w \<Rightarrow> w | _ \<Rightarrow> zero3)"

definition to_str :: "jsval \<Rightarrow> string" where
  "to_str v = (case v of JStr s \<Rightarrow> s | _ \<Rightarrow> [])"

definition to_bool :: "jsval \<Rightarrow> bool" where
  "to_bool v = (case v of JBool t \<Rightarrow> t | _ \<Rightarrow> False)"

definition to_any :: "jsval \<Rightarrow> jsval" where
  "to_any v = (case v of JArr xs \<Rightarrow> JVec (Vector3_spread xs) | _ \<Rightarrow> v)"

definition storable :: "string \<times> jsval \<Rightarrow> bool" where
  "storable kv = (assignProp (fst kv) (snd kv) DEFAULT_BRICK \<noteq> None)"

text \<open>
  \<open>round_trip b b'\<close>: what a brick \<open>b'\<close> read back has in common with the brick
  \<open>b\<close> that was written.
\<close>

definition round_trip :: "brick \<Rightarrow> brick \<Rightarrow> bool" where
  "round_trip b b' =
     (position b' = position b \<and> scale b' = scale b \<and> color b' = color b \<and>
      rotation b' = rotation b \<and> collision b' = collision b \<and>
      visibility b' = (if num_lt (visibility b) (Num 1) then visibility b else Num 1) \<and>
      name b' = name_kept b \<and> model b' = model_kept b \<and>
      lightEnabled b' = lightEnabled b \<and>
      lightColor b' = (if lightEnabled b then lightColor b else ''#000000'') \<and>
      lightRange b' = (if lightEnabled b then to_any (lightRange b) else JNum (Num 5)) \<and>
      clickable b' = clickable b \<and>
      clickDistance b' = (if clickable b then clickDistance b else Num 50))"

text \<open>A brick with some fields set, for trying the serializer on.\<close>

definition example_wall :: brick where
  "example_wall =
     (fst (Brick_new (Vector3 (Num 1) (Num 2) (Num 3)) (Vector3 (Num 4) (Num 4) (Num 4))
        ''#ff0000'' 0))
     \<lparr>name := Some ''wall'', visibility := Num (1 / 2), clickable := True,
      clickDistance := Num 30\<rparr>"

section \<open>Strings and number literals\<close>

text \<open>
  \<open>fs.promises.readFile(map, "UTF-8")\<close> gives the text of the map file. A text is held
  here as the bytes of its UTF-8 form, a \<open>char\<close> being a byte: the loader cuts it at
  line feeds and spaces and compares the pieces with 7-bit words, which is the same on
  the bytes as on the characters.

  \<open>String.prototype.trim\<close> strips the white space and the line terminators of
  ECMAScript from both ends. In UTF-8 these are the bytes 09 to 0D and 20, the two bytes
  C2 A0 (no-break space), and the three bytes E1 9A 80 (U+1680), E2 80 80 to E2 80 8A
  (U+2000 to U+200A), E2 80 A8 and E2 80 A9 (line and paragraph separator), E2 80 AF
  (U+202F), E2 81 9F (U+205F), E3 80 80 (U+3000) and EF BB BF (U+FEFF, the byte order
  mark).
\<close>

definition space1 :: "char \<Rightarrow> bool" where
  "space1 a = (a \<in> {CHR 0x09, CHR 0x0A, CHR 0x0B, CHR 0x0C, CHR 0x0D, CHR 0x20})"

definition space2 :: "char \<Rightarrow> char \<Rightarrow> bool" where
  "space2 a b = (a = CHR 0xC2 \<and> b = CHR 0xA0)"

definition space3 :: "char \<Rightarrow> char \<Rightarrow> char \<Rightarrow> bool" where
  "space3 a b c =
     ((a = CHR 0xE1 \<and> b = CHR 0x9A \<and> c = CHR 0x80) \<or>
      (a = CHR 0xE2 \<and> b = CHR 0x80 \<and>
         (c \<in> {CHR 0x80, CHR 0x81, CHR 0x82, CHR 0x83, CHR 0x84, CHR 0x85, CHR 0x86,
                CHR 0x87, CHR 0x88, CHR 0x89, CHR 0x8A, CHR 0xA8, CHR 0xA9, CHR 0xAF})) \<or>
      (a = CHR 0xE2 \<and> b = CHR 0x81 \<and> c = CHR 0x9F) \<or>
      (a = CHR 0xE3 \<and> b = CHR 0x80 \<and> c = CHR 0x80) \<or>
      (a = CHR 0xEF \<and> b = CHR 0xBB \<and> c = CHR 0xBF))"

text \<open>
  Stripping the white space at the start of a text; \<open>p2\<close> and \<open>p3\<close> recognise the
  characters of two and of three bytes, so that the same function serves for the end of
  the text, on the reversed bytes.
\<close>

fun strip :: "(char \<Rightarrow> char \<Rightarrow> bool) \<Rightarrow> (char \<Rightarrow> char \<Rightarrow> char \<Rightarrow> bool) \<Rightarrow> string \<Rightarrow> string" where
  "strip p2 p3 (a # b # c # s) =
     (if space1 a then strip p2 p3 (b # c # s)
      else if p2 a b then strip p2 p3 (c # s)
      else if p3 a b c then strip p2 p3 s
      else a # b # c # s)"
| "strip p2 p3 [a, b] =
     (if space1 a then strip p2 p3 [b] else if p2 a b then [] else [a, b])"
| "strip p2 p3 [a] = (if space1 a then [] else [a])"
| "strip p2 p3 [] = []"

definition trim :: "string \<Rightarrow> string" where
  "trim s =
     rev (strip (\<lambda>a b. space2 b a) (\<lambda>a b c. space3 c b a) (rev (strip space2 space3 s)))"

text \<open>
  \<open>split_on c\<close> is \<open>split\<close> with a one-character separator, \<open>join\<close> is
  \<open>Array.join\<close>.
\<close>

fun split_on :: "char \<Rightarrow> string \<Rightarrow> string list" where
  "split_on c [] = [[]]"
| "split_on c (x # xs) =
     (if x = c then [] # split_on c xs
      else (case split_on c xs of w # ws \<Rightarrow> (x # w) # ws | [] \<Rightarrow> [[x]]))"

fun join :: "string \<Rightarrow> string list \<Rightarrow> string" where
  "join sep [] = []"
| "join sep [w] = w"
| "join sep (w # ws) = w @ sep @ join sep ws"

text \<open>\<open>array[i]\<close> on an array of strings.\<close>

definition str_at :: "string list \<Rightarrow> nat \<Rightarrow> jsval" where
  "str_at xs i = (if i < length xs then JStr (xs ! i) else Undefined)"

text \<open>
  \<open>Number(s)\<close> for a string. The string is trimmed; the empty string is 0; a decimal
  literal (digits with an optional fraction, or a fraction alone, then an optional
  exponent) with an optional sign, or an unsigned binary, octal or hexadecimal literal
  (\<open>0b\<close>, \<open>0o\<close>, \<open>0x\<close>), is the double nearest to its value; anything else is
  \<open>NaN\<close>. The literal \<open>Infinity\<close> is outside this model (it reads as \<open>NaN\<close>
  here), as the infinities are.
\<close>

definition digit :: "char \<Rightarrow> bool" where
  "digit c = (48 \<le> (of_char c :: nat) \<and> (of_char c :: nat) \<le> 57)"

fun digits_value :: "string \<Rightarrow> nat \<Rightarrow> nat" where
  "digits_value [] acc = acc"
| "digits_value (c # cs) acc = digits_value cs (10 * acc + (of_char c - 48))"

text \<open>The value of a digit in a radix up to 16, if it is one.\<close>

definition digit_in :: "nat \<Rightarrow> char \<Rightarrow> nat option" where
  "digit_in radix c =
     (let k = (of_char c :: nat);
          v = (if 48 \<le> k \<and> k \<le> 57 then Some (k - 48)
               else if 97 \<le> k \<and> k \<le> 102 then Some (k - 87)
               else if 65 \<le> k \<and> k \<le> 70 then Some (k - 55)
               else None)
      in case v of Some d \<Rightarrow> (if d < radix then Some d else None) | None \<Rightarrow> None)"

fun radix_value :: "nat \<Rightarrow> string \<Rightarrow> nat \<Rightarrow> nat option" where
  "radix_value radix [] acc = Some acc"
| "radix_value radix (c # cs) acc =
     (case digit_in radix c of
        Some d \<Rightarrow> radix_value radix cs (radix * acc + d)
      | None \<Rightarrow> None)"

definition radix_literal :: "string \<Rightarrow> rat option" where
  "radix_literal s =
     (case s of
        z # x # ds \<Rightarrow>
          (if z = CHR ''0'' \<and> ds \<noteq> []
           then (if x = CHR ''x'' \<or> x = CHR ''X'' then map_option of_nat (radix_value 16 ds 0)
                 else if x = CHR ''o'' \<or> x = CHR ''O'' then map_option of_nat (radix_value 8 ds 0)
                 else if x = CHR ''b'' \<or> x = CHR ''B'' then map_option of_nat (radix_value 2 ds 0)
                 else None)
           else None)
      | _ \<Rightarrow> None)"

text \<open>The exponent part of a decimal literal, when there is one: \<open>e\<close> or \<open>E\<close>, an
  optional sign, digits.\<close>

definition exponent_part :: "string \<Rightarrow> int option" where
  "exponent_part s =
     (case s of
        [] \<Rightarrow> Some 0
      | e # r \<Rightarrow>
          (if e = CHR ''e'' \<or> e = CHR ''E''
           then (case r of
                   [] \<Rightarrow> None
                 | c # ds \<Rightarrow>
                     (if c = CHR ''-'' \<or> c = CHR ''+''
                      then (if ds \<noteq> [] \<and> list_all digit ds
                            then Some ((if c = CHR ''-'' then - 1 else 1) * int (digits_value ds 0))
                            else None)
                      else (if list_all digit r then Some (int (digits_value r 0)) else None)))
           else None))"

definition unsigned_literal :: "string \<Rightarrow> rat option" where
  "unsigned_literal s =
     (let ip = takeWhile digit s;
          r1 = dropWhile digit s;
          dot = (r1 \<noteq> [] \<and> hd r1 = CHR ''.'');
          fp = (if dot then takeWhile digit (tl r1) else []);
          r2 = (if dot then dropWhile digit (tl r1) else r1)
      in if ip = [] \<and> fp = [] then None
         else (case exponent_part r2 of
                 None \<Rightarrow> None
               | Some e \<Rightarrow>
                   Some ((of_nat (digits_value ip 0) + of_nat (digits_value fp 0) / 10 ^ length fp)
                         * (if 0 \<le> e then 10 ^ nat e else 1 / 10 ^ nat (- e)))))"

definition Number :: "string \<Rightarrow> jsnum" where
  "Number s =
     (let t = trim s in
      case t of
        [] \<Rightarrow> Num 0
      | c # r \<Rightarrow>
          (case (if c = CHR ''-'' then map_option uminus (unsigned_literal r)
                 else if c = CHR ''+'' then unsigned_literal r
                 else (case radix_literal t of Some q \<Rightarrow> Some q | None \<Rightarrow> unsigned_literal t)) of
             None \<Rightarrow> NaN
           | Some q \<Rightarrow> Num (double q)))"

text \<open>\<open>a % b\<close>: the remainder has the sign of the dividend.\<close>

fun num_mod :: "jsnum \<Rightarrow> jsnum \<Rightarrow> jsnum" where
  "num_mod (Num a) (Num b) =
     (if b = 0 then NaN
      else Num (a - b * of_int (if 0 \<le> a / b then \<lfloor>a / b\<rfloor> else \<lceil>a / b\<rceil>)))"
| "num_mod _ _ = NaN"

section \<open>The map loader\<close>

text \<open>
  \<open>convertRGB\<close> and \<open>rgbToHex\<close> come from the colour module, which is not among the
  sources: they are a parameter, with the type of a channel left open.
\<close>

record 'c colorModule =
  convertRGB :: "jsval \<Rightarrow> jsval \<Rightarrow> jsval \<Rightarrow> 'c \<times> 'c \<times> 'c"
  rgbToHex :: "'c \<Rightarrow> 'c \<Rightarrow> 'c \<Rightarrow> string"

text \<open>
  Modelled from the spec: the classes \<open>Team\<close> and \<open>Tool\<close>, which are not among the
  sources. A tool is a named inventory item, a team a name with a colour; an object of
  theirs is recorded by the arguments of its constructor. The name of a team is what
  the \<open>teams\<close> array held last: a name, or a team when a second \<open>COLOR\<close> line
  follows.
\<close>

datatype teamVal = TeamName string | Team teamVal string

datatype toolObj = Tool string

datatype Weather = Sun | Rain | Snow

record environment =
  ambient :: "string option"
  baseColor :: "string option"
  skyColor :: "string option"
  baseSize :: "jsnum option"
  sunIntensity :: "jsnum option"
  weather :: "Weather option"

text \<open>
  The variables of \<open>loadBrk\<close>. \<open>spawns\<close> holds the positions in \<open>bricks\<close> of the
  bricks pushed to it (they are the same objects); \<open>console\<close> collects what is written
  to the console; \<open>nextBrickId\<close> is \<open>Brick.brickId\<close>.
\<close>

record loader =
  totalLines :: nat
  bricks :: "brick list"
  spawns :: "nat list"
  tools :: "toolObj list"
  teams :: "teamVal list"
  environment :: environment
  currentBrick :: int
  scriptWarning :: bool
  console :: "string list"
  nextBrickId :: nat


definition signature :: string where
  "signature = ''B R I C K  W O R K S H O P  V0.2.0.0''"

text \<open>
  \<open>bricks[currentBrick].field = ...\<close>: with no brick yet, \<open>bricks[-1]\<close> is
  \<open>undefined\<close> and the assignment throws a \<open>TypeError\<close>.
\<close>

definition withCurrent :: "(brick \<Rightarrow> brick) \<Rightarrow> loader \<Rightarrow> error + loader" where
  "withCurrent f st =
     (if 0 \<le> currentBrick st \<and> nat (currentBrick st) < length (bricks st)
      then Inr (st\<lparr>bricks := (bricks st)[nat (currentBrick st) :=
                        f (bricks st ! nat (currentBrick st))]\<rparr>)
      else Inl TypeError)"

text \<open>The rotation set by a \<open>ROT\<close> line.\<close>

definition rot_vector :: "jsnum list \<Rightarrow> vector3" where
  "rot_vector rot =
     (if length rot = 1
      then Vector3 (Num 0) (Num 0)
             (if \<not> num_eq (num_mod (rot ! 0) (Num 90)) (Num 0) then fl_add (rot ! 0) (Num 90)
              else Num 0)
      else Vector3 (if 0 < length rot then rot ! 0 else Num 0)
                   (if 1 < length rot then rot ! 1 else Num 0)
                   (if 2 < length rot then rot ! 2 else Num 0))"

text \<open>
  A line that is no attribute line: a brick definition when it has 10 fields, and the
  \<open>>TEAM\<close> and \<open>>SLOT\<close> directives.
\<close>

definition plainLine :: "'c colorModule \<Rightarrow> string list \<Rightarrow> string \<Rightarrow> loader \<Rightarrow> loader" where
  "plainLine cm DATA VALUE st =
     (let st1 =
        (if length DATA = 10
         then (case convertRGB cm (JStr (DATA ! 6)) (JStr (DATA ! 7)) (JStr (DATA ! 8)) of
                 (r, g, bl) \<Rightarrow>
                   (case Brick_new
                           (Vector3 (Number (DATA ! 0)) (Number (DATA ! 1)) (Number (DATA ! 2)))
                           (Vector3 (Number (DATA ! 3)) (Number (DATA ! 4)) (Number (DATA ! 5)))
                           (rgbToHex cm r g bl) (nextBrickId st) of
                      (newBrick, n) \<Rightarrow>
                        st\<lparr>bricks := bricks st @ [newBrick\<lparr>visibility := Number (DATA ! 9)\<rparr>],
                           currentBrick := currentBrick st + 1,
                           nextBrickId := n\<rparr>))
         else st);
          st2 = (if str_at DATA 0 = JStr ''>TEAM''
                 then st1\<lparr>teams := teams st1 @ [TeamName VALUE]\<rparr> else st1)
      in if str_at DATA 0 = JStr ''>SLOT''
         then st2\<lparr>tools := tools st2 @ [Tool VALUE]\<rparr> else st2)"

text \<open>The second \<open>switch\<close>: the attribute lines.\<close>

definition attributeLine :: "'c colorModule \<Rightarrow> string \<Rightarrow> loader \<Rightarrow> error + loader" where
  "attributeLine cm line st =
     (let DATA = split_on CHR '' '' line;
          ATTRIBUTE = remove1 CHR ''+'' (case DATA of d0 # ds \<Rightarrow> d0 | [] \<Rightarrow> []);
          VALUE = join '' '' (tl DATA)
      in if ATTRIBUTE = ''NAME'' then withCurrent (\<lambda>b. b\<lparr>name := Some VALUE\<rparr>) st
         else if ATTRIBUTE = ''ROT''
         then withCurrent
                (\<lambda>b. b\<lparr>rotation := rot_vector (map Number (split_on CHR '' '' VALUE))\<rparr>) st
         else if ATTRIBUTE = ''SHAPE''
         then (case withCurrent (\<lambda>b. b\<lparr>shape := Some VALUE\<rparr>) st of
                 Inl e \<Rightarrow> Inl e
               | Inr st' \<Rightarrow>
                   Inr (if VALUE = ''spawnpoint''
                        then st'\<lparr>spawns := spawns st' @ [nat (currentBrick st')]\<rparr> else st'))
         else if ATTRIBUTE = ''MODEL''
         then withCurrent (\<lambda>b. b\<lparr>model := Some (Number VALUE)\<rparr>) st
         else if ATTRIBUTE = ''NOCOLLISION''
         then withCurrent (\<lambda>b. b\<lparr>collision := False\<rparr>) st
         else if ATTRIBUTE = ''COLOR''
         then (let colors = split_on CHR '' '' VALUE in
               case convertRGB cm (str_at colors 0) (str_at colors 1) (str_at colors 2) of
                 (r, g, bl) \<Rightarrow>
                   Inr (if teams st = [] then st
                        else st\<lparr>teams := butlast (teams st) @
                                  [Team (last (teams st)) (rgbToHex cm r g bl)]\<rparr>))
         else if ATTRIBUTE = ''LIGHT''
         then (let colors = split_on CHR '' '' VALUE in
               case convertRGB cm (str_at colors 0) (str_at colors 1) (str_at colors 2) of
                 (r, g, bl) \<Rightarrow>
                   withCurrent
                     (\<lambda>b. b\<lparr>lightEnabled := True, lightRange := str_at colors 3,
                            lightColor := rgbToHex cm r g bl\<rparr>) st)
         else if ATTRIBUTE = ''SCRIPT''
         then Inr (if scriptWarning st then st
                   else st\<lparr>scriptWarning := True,
                          console := console st @
                            [''WARNING: This set contains scripts. Scripts are incompatible with node-hill so they will not be loaded.'']\<rparr>)
         else Inr (plainLine cm DATA VALUE st))"

text \<open>
  The body of the loop over the lines. A header line that is not the signature ends the
  process (\<open>process.exit(0)\<close>); the \<open>COLOR\<close> line of an empty \<open>teams\<close> array stores
  the team under the key \<open>-1\<close>, which leaves the array empty.
\<close>

definition loadLine :: "'c colorModule \<Rightarrow> string \<Rightarrow> loader \<Rightarrow> error + loader" where
  "loadLine cm rawLine st0 =
     (let st = st0\<lparr>totalLines := totalLines st0 + 1\<rparr>;
          line = trim rawLine;
          glColor = split_on CHR '' '' line
      in if totalLines st = 1
         then (if line \<noteq> signature
               then Inl ProcessExit
               else Inr st)
         else if totalLines st = 3
         then (case convertRGB cm (str_at glColor 0) (str_at glColor 1) (str_at glColor 2) of
                 (r, g, bl) \<Rightarrow>
                   Inr (st\<lparr>environment := (environment st)\<lparr>ambient := Some (rgbToHex cm bl g r)\<rparr>\<rparr>))
         else if totalLines st = 4
         then (case convertRGB cm (str_at glColor 0) (str_at glColor 1) (str_at glColor 2) of
                 (r, g, bl) \<Rightarrow>
                   Inr (st\<lparr>environment := (environment st)\<lparr>baseColor := Some (rgbToHex cm bl g r)\<rparr>\<rparr>))
         else if totalLines st = 5
         then (case convertRGB cm (str_at glColor 0) (str_at glColor 1) (str_at glColor 2) of
                 (r, g, bl) \<Rightarrow>
                   Inr (st\<lparr>environment := (environment st)\<lparr>skyColor := Some (rgbToHex cm r g bl)\<rparr>\<rparr>))
         else if totalLines st = 6
         then Inr (st\<lparr>environment := (environment st)\<lparr>baseSize := Some (Number line)\<rparr>\<rparr>)
         else if totalLines st = 7
         then Inr (st\<lparr>environment := (environment st)\<lparr>sunIntensity := Some (Number line)\<rparr>\<rparr>)
         else attributeLine cm line st)"


definition loader_start :: "nat \<Rightarrow> loader" where
  "loader_start n =
     \<lparr> totalLines = 0, bricks = [], spawns = [], tools = [], teams = [],
       environment = \<lparr> ambient = None, baseColor = None, skyColor = None, baseSize = None,
                       sunIntensity = None, weather = None \<rparr>,
       currentBrick = -1, scriptWarning = False, console = [], nextBrickId = n \<rparr>"





section \<open>Position updates: throttling and change tags\<close>

text \<open>
  Each step of the chain touches one field and appends at most one tag, so the whole
  update is read off field by field.
\<close>

lemma updX_fst: "fst (updX pos s) = fst s @ (if changedX pos (snd s) then ''A'' else [])"
  by (simp add: updX_def)
lemma updY_fst: "fst (updY pos s) = fst s @ (if changedY pos (snd s) then ''B'' else [])"
  by (simp add: updY_def)
lemma updZ_fst: "fst (updZ pos s) = fst s @ (if changedZ pos (snd s) then ''C'' else [])"
  by (simp add: updZ_def)
lemma updYaw_fst: "fst (updYaw pos s) = fst s @ (if changedYaw pos (snd s) then ''F'' else [])"
  by (simp add: updYaw_def)
lemma updCam_fst: "fst (updCam pos s) = fst s"
  by (simp add: updCam_def)

lemma updX_position:
  "position (snd (updX pos s)) =
     Vector3 (if changedX pos (snd s) then val_num (at_index pos 0) else vx (position (snd s)))
       (vy (position (snd s))) (vz (position (snd s)))"
  by (simp add: updX_def set_vx_def)
lemma updY_position:
  "position (snd (updY pos s)) =
     Vector3 (vx (position (snd s)))
       (if changedY pos (snd s) then val_num (at_index pos 1) else vy (position (snd s)))
       (vz (position (snd s)))"
  by (simp add: updY_def set_vy_def)
lemma updZ_position:
  "position (snd (updZ pos s)) =
     Vector3 (vx (position (snd s))) (vy (position (snd s)))
       (if changedZ pos (snd s) then val_num (at_index pos 2) else vz (position (snd s)))"
  by (simp add: updZ_def set_vz_def)
lemma updYaw_position: "position (snd (updYaw pos s)) = position (snd s)"
  by (simp add: updYaw_def)
lemma updCam_position: "position (snd (updCam pos s)) = position (snd s)"
  by (simp add: updCam_def)

lemma updX_rotation: "rotation (snd (updX pos s)) = rotation (snd s)"
  by (simp add: updX_def)
lemma updY_rotation: "rotation (snd (updY pos s)) = rotation (snd s)"
  by (simp add: updY_def)
lemma updZ_rotation: "rotation (snd (updZ pos s)) = rotation (snd s)"
  by (simp add: updZ_def)
lemma updYaw_rotation:
  "rotation (snd (updYaw pos s)) =
     Vector3 (vx (rotation (snd s))) (vy (rotation (snd s)))
       (if changedYaw pos (snd s) then val_num (at_index pos 3) else vz (rotation (snd s)))"
  by (simp add: updYaw_def set_vz_def)
lemma updCam_rotation: "rotation (snd (updCam pos s)) = rotation (snd s)"
  by (simp add: updCam_def)

lemma changedY_updX: "changedY pos (snd (updX pos s)) = changedY pos (snd s)"
  by (simp add: changedY_def updX_position)
lemma changedZ_updX: "changedZ pos (snd (updX pos s)) = changedZ pos (snd s)"
  by (simp add: changedZ_def updX_position)
lemma changedZ_updY: "changedZ pos (snd (updY pos s)) = changedZ pos (snd s)"
  by (simp add: changedZ_def updY_position)
lemma changedYaw_updX: "changedYaw pos (snd (updX pos s)) = changedYaw pos (snd s)"
  by (simp add: changedYaw_def updX_rotation)
lemma changedYaw_updY: "changedYaw pos (snd (updY pos s)) = changedYaw pos (snd s)"
  by (simp add: changedYaw_def updY_rotation)
lemma changedYaw_updZ: "changedYaw pos (snd (updZ pos s)) = changedYaw pos (snd s)"
  by (simp add: changedYaw_def updZ_rotation)

lemma updateFields_tags:
  "fst (updateFields pos p) =
     (if changedX pos p then ''A'' else []) @ (if changedY pos p then ''B'' else []) @
     (if changedZ pos p then ''C'' else []) @ (if changedYaw pos p then ''F'' else [])"
  unfolding updateFields_def
  by (simp only: updCam_fst updYaw_fst updZ_fst updY_fst updX_fst changedY_updX changedZ_updX
      changedZ_updY changedYaw_updX changedYaw_updY changedYaw_updZ fst_conv snd_conv
      append_Nil append_assoc)


lemma updateFields_position:
  "position (snd (updateFields pos p)) =
     Vector3 (if changedX pos p then val_num (at_index pos 0) else vx (position p))
             (if changedY pos p then val_num (at_index pos 1) else vy (position p))
             (if changedZ pos p then val_num (at_index pos 2) else vz (position p))"
  unfolding updateFields_def
  by (simp only: updCam_position updYaw_position updZ_position updY_position updX_position
      changedY_updX changedZ_updX changedZ_updY fst_conv snd_conv vector3.sel)

lemma updateFields_rotation:
  "rotation (snd (updateFields pos p)) =
     Vector3 (vx (rotation p)) (vy (rotation p))
             (if changedYaw pos p then val_num (at_index pos 3) else vz (rotation p))"
  unfolding updateFields_def
  by (simp only: updCam_rotation updYaw_rotation updZ_rotation updY_rotation updX_rotation
      changedYaw_updX changedYaw_updY changedYaw_updZ fst_conv snd_conv vector3.sel)

lemma upd_camera:
  "cameraRotation (snd (updX pos s)) = cameraRotation (snd s)"
  "cameraRotation (snd (updY pos s)) = cameraRotation (snd s)"
  "cameraRotation (snd (updZ pos s)) = cameraRotation (snd s)"
  "cameraRotation (snd (updYaw pos s)) = cameraRotation (snd s)"
  by (simp_all add: updX_def updY_def updZ_def updYaw_def)

lemma updCam_camera:
  "cameraRotation (snd (updCam pos s)) =
     (if changedCam pos (snd s) then set_vx (val_num (at_index pos 4)) (cameraRotation (snd s))
      else cameraRotation (snd s))"
  by (simp add: updCam_def)

lemma updateFields_camera_kept:
  assumes "\<not> truthy (at_index pos 4)"
  shows "cameraRotation (snd (updateFields pos p)) = cameraRotation p"
  unfolding updateFields_def using assms
  by (simp add: updCam_camera upd_camera changedCam_def)

lemma upd_delta:
  "positionDeltaTime (snd (updX pos s)) = positionDeltaTime (snd s)"
  "positionDeltaTime (snd (updY pos s)) = positionDeltaTime (snd s)"
  "positionDeltaTime (snd (updZ pos s)) = positionDeltaTime (snd s)"
  "positionDeltaTime (snd (updYaw pos s)) = positionDeltaTime (snd s)"
  "positionDeltaTime (snd (updCam pos s)) = positionDeltaTime (snd s)"
  by (simp_all add: updX_def updY_def updZ_def updYaw_def updCam_def)

lemma updateFields_delta:
  "positionDeltaTime (snd (updateFields pos p)) = positionDeltaTime p"
  unfolding updateFields_def by (simp only: upd_delta snd_conv)

lemma update_dropped:
  "now - positionDeltaTime p < 50 \<Longrightarrow> updatePositionForOthers now pos p = (p, [])"
  by (simp add: updatePositionForOthers_def)

lemma update_accepted_fst:
  "\<not> now - positionDeltaTime p < 50 \<Longrightarrow>
     fst (updatePositionForOthers now pos p) = snd (updateFields pos (p\<lparr>positionDeltaTime := now\<rparr>))"
  by (simp add: updatePositionForOthers_def split: prod.splits)

lemma update_accepted_snd:
  "\<not> now - positionDeltaTime p < 50 \<Longrightarrow>
     snd (updatePositionForOthers now pos p) =
       (let s = updateFields pos (p\<lparr>positionDeltaTime := now\<rparr>) in
        if fst s \<noteq> [] then [Moved (position (snd s)) (vz (rotation (snd s))),
                   BroadcastExcept [netId (snd s)] (PlayerIds (snd s) (fst s))] else [])"
  by (simp add: updatePositionForOthers_def split: prod.splits)

lemma changed_delta:
  "changedX pos (p\<lparr>positionDeltaTime := t\<rparr>) = changedX pos p"
  "changedY pos (p\<lparr>positionDeltaTime := t\<rparr>) = changedY pos p"
  "changedZ pos (p\<lparr>positionDeltaTime := t\<rparr>) = changedZ pos p"
  "changedYaw pos (p\<lparr>positionDeltaTime := t\<rparr>) = changedYaw pos p"
  by (simp_all add: changedX_def changedY_def changedZ_def changedYaw_def)

lemma update_tags:
  "tags_of (snd (updatePositionForOthers now pos p)) =
     (if now - positionDeltaTime p < 50 then []
      else (if changedX pos p then ''A'' else []) @ (if changedY pos p then ''B'' else []) @
           (if changedZ pos p then ''C'' else []) @ (if changedYaw pos p then ''F'' else []))"
proof (cases "now - positionDeltaTime p < 50")
  case True
  then show ?thesis by (simp add: update_dropped)
next
  case False
  let ?s = "updateFields pos (p\<lparr>positionDeltaTime := now\<rparr>)"
  have "tags_of (snd (updatePositionForOthers now pos p)) = fst ?s"
    using False by (simp add: update_accepted_snd Let_def)
  then show ?thesis using False
    by (simp only: updateFields_tags changed_delta if_False)
qed


lemma update_delta:
  "positionDeltaTime (fst (updatePositionForOthers now pos p)) =
     (if now - positionDeltaTime p < 50 then positionDeltaTime p else now)"
  by (simp add: update_dropped update_accepted_fst updateFields_delta)

lemma update_broadcasts:
  "filter is_broadcast (snd (updatePositionForOthers now pos p)) = [] \<or>
   (\<not> now - positionDeltaTime p < 50 \<and>
    (\<exists>b. filter is_broadcast (snd (updatePositionForOthers now pos p)) = [b]))"
  by (cases "now - positionDeltaTime p < 50")
     (simp_all add: update_dropped update_accepted_snd Let_def)

lemma broadcast_times_Cons:
  "broadcast_times ((now, pos) # us) p =
     map (\<lambda>b. now) (filter is_broadcast (snd (updatePositionForOthers now pos p))) @
     broadcast_times us (fst (updatePositionForOthers now pos p))"
  by (simp add: broadcast_times_def filter_map comp_def split: prod.splits)

lemma session_times:
  "sorted_wrt (\<lambda>s t. s + 50 \<le> t) (broadcast_times us p) \<and>
   (\<forall>t \<in> set (broadcast_times us p). positionDeltaTime p + 50 \<le> t)"
proof (induction us arbitrary: p)
  case Nil
  show ?case by (simp add: broadcast_times_def)
next
  case (Cons u us)
  obtain now pos where u: "u = (now, pos)" by (cases u)
  let ?p' = "fst (updatePositionForOthers now pos p)"
  let ?bs = "filter is_broadcast (snd (updatePositionForOthers now pos p))"
  have ih1: "sorted_wrt (\<lambda>s t. s + 50 \<le> t) (broadcast_times us ?p')"
    and ih2: "\<forall>t \<in> set (broadcast_times us ?p'). positionDeltaTime ?p' + 50 \<le> t"
    using Cons.IH [of ?p'] by simp_all
  show ?case
  proof (cases "now - positionDeltaTime p < 50")
    case True
    then have "updatePositionForOthers now pos p = (p, [])" by (rule update_dropped)
    then have "broadcast_times (u # us) p = broadcast_times us p"
      by (simp add: u broadcast_times_Cons)
    then show ?thesis using Cons.IH [of p] by simp
  next
    case False
    have d: "positionDeltaTime ?p' = now" using False by (simp add: update_delta)
    from update_broadcasts [of now pos p] consider "?bs = []" | b where "?bs = [b]" by blast
    then show ?thesis
    proof cases
      case 1
      then have "broadcast_times (u # us) p = broadcast_times us ?p'"
        by (simp add: u broadcast_times_Cons)
      then show ?thesis using ih1 ih2 d False by auto
    next
      case 2
      then have "broadcast_times (u # us) p = now # broadcast_times us ?p'"
        by (simp add: u broadcast_times_Cons)
      then show ?thesis using ih1 ih2 d False by auto
    qed
  qed
qed

lemma update_netId: "netId (fst (updatePositionForOthers now pos p)) = netId p"
  by (cases "now - positionDeltaTime p < 50")
     (simp_all add: update_dropped update_accepted_fst updateFields_def updX_def updY_def
       updZ_def updYaw_def updCam_def)

lemma update_position:
  "position (fst (updatePositionForOthers now pos p)) =
    (if now - positionDeltaTime p < 50 then position p else
     Vector3 (if changedX pos p then val_num (at_index pos 0) else vx (position p))
             (if changedY pos p then val_num (at_index pos 1) else vy (position p))
             (if changedZ pos p then val_num (at_index pos 2) else vz (position p)))"
  by (simp add: update_dropped update_accepted_fst updateFields_position changed_delta)

lemma update_rotation:
  "rotation (fst (updatePositionForOthers now pos p)) =
    (if now - positionDeltaTime p < 50 then rotation p else
     Vector3 (vx (rotation p)) (vy (rotation p))
             (if changedYaw pos p then val_num (at_index pos 3) else vz (rotation p)))"
  by (simp add: update_dropped update_accepted_fst updateFields_rotation changed_delta)

lemma updateFields_camera:
  "cameraRotation (snd (updateFields pos p)) =
     (if changedCam pos p then set_vx (val_num (at_index pos 4)) (cameraRotation p)
      else cameraRotation p)"
proof -
  have r: "rotation (snd (updYaw pos (updZ pos (updY pos (updX pos ([], p)))))) =
      Vector3 (vx (rotation p)) (vy (rotation p))
        (if changedYaw pos p then val_num (at_index pos 3) else vz (rotation p))"
    by (simp only: updYaw_rotation updZ_rotation updY_rotation updX_rotation
      changedYaw_updX changedYaw_updY changedYaw_updZ fst_conv snd_conv)
  have c: "changedCam pos (snd (updYaw pos (updZ pos (updY pos (updX pos ([], p)))))) =
      changedCam pos p"
    unfolding changedCam_def r by simp
  show ?thesis unfolding updateFields_def
    by (simp only: updCam_camera c upd_camera snd_conv)
qed

lemma update_camera:
  "cameraRotation (fst (updatePositionForOthers now pos p)) =
    (if now - positionDeltaTime p < 50 then cameraRotation p else
     if changedCam pos p then set_vx (val_num (at_index pos 4)) (cameraRotation p)
     else cameraRotation p)"
  by (simp add: update_dropped update_accepted_fst updateFields_camera changedCam_def)

lemma update_effects:
  "snd (updatePositionForOthers now pos p) =
     (if tags_of (snd (updatePositionForOthers now pos p)) = [] then []
      else [Moved (position (fst (updatePositionForOthers now pos p)))
              (vz (rotation (fst (updatePositionForOthers now pos p)))),
            BroadcastExcept [netId p] (PlayerIds (fst (updatePositionForOthers now pos p))
              (tags_of (snd (updatePositionForOthers now pos p))))])"
proof (cases "now - positionDeltaTime p < 50")
  case True
  then show ?thesis by (simp add: update_dropped)
next
  case False
  have n: "netId (snd (updateFields pos (p\<lparr>positionDeltaTime := now\<rparr>))) = netId p"
    using update_netId [of now pos p] False by (simp add: update_accepted_fst)
  show ?thesis using False
    by (simp add: update_accepted_fst update_accepted_snd Let_def n)
qed

text \<open>
  Claim C9. In a position update, a coordinate whose incoming value is exactly 0 is treated
  as absent: the stored value of that axis (x, y, z, yaw, camera pitch) is left as it was,
  whatever it was, and the broadcast carries no tag for it. The camera pitch has no tag at
  all: every tag is one of A, B, C, F.
\<close>
theorem zero_coordinate_is_absent:
  "(at_index pos 0 = JNum (Num 0) \<longrightarrow>
      vx (position (fst (updatePositionForOthers now pos p))) = vx (position p) \<and>
      CHR ''A'' \<notin> set (tags_of (snd (updatePositionForOthers now pos p)))) \<and>
   (at_index pos 1 = JNum (Num 0) \<longrightarrow>
      vy (position (fst (updatePositionForOthers now pos p))) = vy (position p) \<and>
      CHR ''B'' \<notin> set (tags_of (snd (updatePositionForOthers now pos p)))) \<and>
   (at_index pos 2 = JNum (Num 0) \<longrightarrow>
      vz (position (fst (updatePositionForOthers now pos p))) = vz (position p) \<and>
      CHR ''C'' \<notin> set (tags_of (snd (updatePositionForOthers now pos p)))) \<and>
   (at_index pos 3 = JNum (Num 0) \<longrightarrow>
      vz (rotation (fst (updatePositionForOthers now pos p))) = vz (rotation p) \<and>
      CHR ''F'' \<notin> set (tags_of (snd (updatePositionForOthers now pos p)))) \<and>
   (at_index pos 4 = JNum (Num 0) \<longrightarrow>
      cameraRotation (fst (updatePositionForOthers now pos p)) = cameraRotation p \<and>
      set (tags_of (snd (updatePositionForOthers now pos p))) \<subseteq> set ''ABCF'')"
  by (auto simp add: update_position update_rotation update_camera update_tags
      changedX_def changedY_def changedZ_def changedYaw_def changedCam_def)

theorem zero_coordinate_is_absent_witness:
  "at_index [Num 0, Num 0, Num 0, Num 0, Num 0] 0 = JNum (Num 0) \<and>
   at_index [Num 0, Num 0, Num 0, Num 0, Num 0] 1 = JNum (Num 0) \<and>
   at_index [Num 0, Num 0, Num 0, Num 0, Num 0] 2 = JNum (Num 0) \<and>
   at_index [Num 0, Num 0, Num 0, Num 0, Num 0] 3 = JNum (Num 0) \<and>
   at_index [Num 0, Num 0, Num 0, Num 0, Num 0] 4 = JNum (Num 0) \<and>
   position (fst (updatePositionForOthers 100 [Num 0, Num 0, Num 0, Num 0, Num 0]
     ((fst (Player_new 0 0))\<lparr>position := Vector3 (Num 7) (Num 8) (Num 9),
        rotation := Vector3 (Num 0) (Num 0) (Num 45),
        cameraRotation := Vector3 (Num 30) (Num 0) (Num 0)\<rparr>))) = Vector3 (Num 7) (Num 8) (Num 9) \<and>
   vz (rotation (fst (updatePositionForOthers 100 [Num 0, Num 0, Num 0, Num 0, Num 0]
     ((fst (Player_new 0 0))\<lparr>position := Vector3 (Num 7) (Num 8) (Num 9),
        rotation := Vector3 (Num 0) (Num 0) (Num 45),
        cameraRotation := Vector3 (Num 30) (Num 0) (Num 0)\<rparr>)))) = Num 45 \<and>
   cameraRotation (fst (updatePositionForOthers 100 [Num 0, Num 0, Num 0, Num 0, Num 0]
     ((fst (Player_new 0 0))\<lparr>position := Vector3 (Num 7) (Num 8) (Num 9),
        rotation := Vector3 (Num 0) (Num 0) (Num 45),
        cameraRotation := Vector3 (Num 30) (Num 0) (Num 0)\<rparr>))) = Vector3 (Num 30) (Num 0) (Num 0) \<and>
   tags_of (snd (updatePositionForOthers 100 [Num 0, Num 0, Num 0, Num 0, Num 0]
     ((fst (Player_new 0 0))\<lparr>position := Vector3 (Num 7) (Num 8) (Num 9),
        rotation := Vector3 (Num 0) (Num 0) (Num 45),
        cameraRotation := Vector3 (Num 30) (Num 0) (Num 0)\<rparr>))) = []"
  using zero_coordinate_is_absent [of "[Num 0, Num 0, Num 0, Num 0, Num 0]" 100
     "(fst (Player_new 0 0))\<lparr>position := Vector3 (Num 7) (Num 8) (Num 9),
        rotation := Vector3 (Num 0) (Num 0) (Num 45),
        cameraRotation := Vector3 (Num 30) (Num 0) (Num 0)\<rparr>"]
  by (simp add: at_index_def Player_new_def update_position update_rotation update_camera update_tags
      changedX_def changedY_def changedZ_def changedYaw_def changedCam_def)

text \<open>
  Claim C6, amended. For every accepted position update (one arriving at least 50 ms after
  the last accepted one), the broadcast carries the tag string naming exactly those of
  x, y, z and yaw (tags A, B, C, F, in this order) whose incoming value is truthy (neither
  absent nor 0 nor NaN) and differs from the stored value; those fields, and no others of
  the four, take the incoming value. The camera pitch has no tag. When no tag is set
  nothing is emitted or sent; otherwise one \<open>moved\<close> event is emitted and one packet,
  built from the updated player and the tag string, is broadcast to everyone but the
  player.
\<close>

theorem accepted_update_tag_set:
  assumes "\<not> now - positionDeltaTime p < 50"
  shows "tags_of (snd (updatePositionForOthers now pos p)) =
           (if changedX pos p then ''A'' else []) @ (if changedY pos p then ''B'' else []) @
           (if changedZ pos p then ''C'' else []) @ (if changedYaw pos p then ''F'' else []) \<and>
         position (fst (updatePositionForOthers now pos p)) =
           Vector3 (if changedX pos p then val_num (at_index pos 0) else vx (position p))
                   (if changedY pos p then val_num (at_index pos 1) else vy (position p))
                   (if changedZ pos p then val_num (at_index pos 2) else vz (position p)) \<and>
         rotation (fst (updatePositionForOthers now pos p)) =
           Vector3 (vx (rotation p)) (vy (rotation p))
                   (if changedYaw pos p then val_num (at_index pos 3) else vz (rotation p)) \<and>
         snd (updatePositionForOthers now pos p) =
           (if tags_of (snd (updatePositionForOthers now pos p)) = [] then []
            else [Moved (position (fst (updatePositionForOthers now pos p)))
                    (vz (rotation (fst (updatePositionForOthers now pos p)))),
                  BroadcastExcept [netId p]
                    (PlayerIds (fst (updatePositionForOthers now pos p))
                       (tags_of (snd (updatePositionForOthers now pos p))))])"
proof -
  have "tags_of (snd (updatePositionForOthers now pos p)) =
           (if changedX pos p then ''A'' else []) @ (if changedY pos p then ''B'' else []) @
           (if changedZ pos p then ''C'' else []) @ (if changedYaw pos p then ''F'' else [])"
    using assms by (simp only: update_tags if_False)
  moreover have "position (fst (updatePositionForOthers now pos p)) =
           Vector3 (if changedX pos p then val_num (at_index pos 0) else vx (position p))
                   (if changedY pos p then val_num (at_index pos 1) else vy (position p))
                   (if changedZ pos p then val_num (at_index pos 2) else vz (position p))"
    using assms by (simp only: update_position if_False)
  moreover have "rotation (fst (updatePositionForOthers now pos p)) =
           Vector3 (vx (rotation p)) (vy (rotation p))
                   (if changedYaw pos p then val_num (at_index pos 3) else vz (rotation p))"
    using assms by (simp only: update_rotation if_False)
  ultimately show ?thesis using update_effects [of now pos p] by blast
qed

theorem accepted_update_tag_set_witness:
  "\<not> 100 - positionDeltaTime (fst (Player_new 0 0)) < 50 \<and>
   tags_of (snd (updatePositionForOthers 100 [Num 3, Num 0, Num 8, Num 90, Num 0]
     (fst (Player_new 0 0)))) = ''ACF'' \<and>
   position (fst (updatePositionForOthers 100 [Num 3, Num 0, Num 8, Num 90, Num 0]
     (fst (Player_new 0 0)))) = Vector3 (Num 3) (Num 0) (Num 8) \<and>
   rotation (fst (updatePositionForOthers 100 [Num 3, Num 0, Num 8, Num 90, Num 0]
     (fst (Player_new 0 0)))) = Vector3 (Num 0) (Num 0) (Num 90)"
  using accepted_update_tag_set [of 100 "fst (Player_new 0 0)"
      "[Num 3, Num 0, Num 8, Num 90, Num 0]"]
  by (simp add: Player_new_def zero3_def one3_def at_index_def
      changedX_def changedY_def changedZ_def changedYaw_def changedCam_def)

text \<open>
  Claim C6 as stated fails: an accepted update that moves x from 0 to 3 and the camera
  pitch from 0 to 5 is broadcast with the tag string \<open>A\<close> alone, although the stored
  camera pitch changed.
\<close>

theorem camera_pitch_untagged_counterexample:
  "tags_of (snd (updatePositionForOthers 100 [Num 3, Num 0, Num 0, Num 0, Num 5]
     (fst (Player_new 0 0)))) = ''A'' \<and>
   vx (cameraRotation (fst (Player_new 0 0))) = Num 0 \<and>
   vx (cameraRotation (fst (updatePositionForOthers 100 [Num 3, Num 0, Num 0, Num 0, Num 5]
     (fst (Player_new 0 0))))) = Num 5"
  by (simp add: update_tags update_camera Player_new_def zero3_def one3_def at_index_def
      changedX_def changedY_def changedZ_def changedYaw_def changedCam_def set_vx_def)

text \<open>
  Claim C2, amended. Whatever the updates of a session and their arrival times, any two
  broadcasts of the session are at least 50 ms apart, so no 50 ms window holds more than
  one. An update arriving less than 50 ms after the last accepted one is dropped whole:
  nothing is stored and nothing is sent, so its values never reach a broadcast. A
  broadcast carries the player as the accepted update itself left it: every tagged field
  holds the value of that update.
\<close>

theorem position_updates_throttled:
  "sorted_wrt (\<lambda>s t. s + 50 \<le> t) (broadcast_times us p) \<and>
   (now - positionDeltaTime p < 50 \<longrightarrow> updatePositionForOthers now pos p = (p, [])) \<and>
   (CHR ''A'' \<in> set (tags_of (snd (updatePositionForOthers now pos p))) \<longrightarrow>
      vx (position (fst (updatePositionForOthers now pos p))) = val_num (at_index pos 0)) \<and>
   (CHR ''B'' \<in> set (tags_of (snd (updatePositionForOthers now pos p))) \<longrightarrow>
      vy (position (fst (updatePositionForOthers now pos p))) = val_num (at_index pos 1)) \<and>
   (CHR ''C'' \<in> set (tags_of (snd (updatePositionForOthers now pos p))) \<longrightarrow>
      vz (position (fst (updatePositionForOthers now pos p))) = val_num (at_index pos 2)) \<and>
   (CHR ''F'' \<in> set (tags_of (snd (updatePositionForOthers now pos p))) \<longrightarrow>
      vz (rotation (fst (updatePositionForOthers now pos p))) = val_num (at_index pos 3)) \<and>
   snd (updatePositionForOthers now pos p) =
     (if tags_of (snd (updatePositionForOthers now pos p)) = [] then []
      else [Moved (position (fst (updatePositionForOthers now pos p)))
              (vz (rotation (fst (updatePositionForOthers now pos p)))),
            BroadcastExcept [netId p]
              (PlayerIds (fst (updatePositionForOthers now pos p))
                 (tags_of (snd (updatePositionForOthers now pos p))))])"
proof -
  have 1: "sorted_wrt (\<lambda>s t. s + 50 \<le> t) (broadcast_times us p)"
    using session_times [of us p] by blast
  have 2: "now - positionDeltaTime p < 50 \<longrightarrow> updatePositionForOthers now pos p = (p, [])"
    by (simp add: update_dropped)
  have 3: "CHR ''A'' \<in> set (tags_of (snd (updatePositionForOthers now pos p))) \<longrightarrow>
      vx (position (fst (updatePositionForOthers now pos p))) = val_num (at_index pos 0)"
    by (simp add: update_tags update_position split: if_splits)
  have 4: "CHR ''B'' \<in> set (tags_of (snd (updatePositionForOthers now pos p))) \<longrightarrow>
      vy (position (fst (updatePositionForOthers now pos p))) = val_num (at_index pos 1)"
    by (simp add: update_tags update_position split: if_splits)
  have 5: "CHR ''C'' \<in> set (tags_of (snd (updatePositionForOthers now pos p))) \<longrightarrow>
      vz (position (fst (updatePositionForOthers now pos p))) = val_num (at_index pos 2)"
    by (simp add: update_tags update_position split: if_splits)
  have 6: "CHR ''F'' \<in> set (tags_of (snd (updatePositionForOthers now pos p))) \<longrightarrow>
      vz (rotation (fst (updatePositionForOthers now pos p))) = val_num (at_index pos 3)"
    by (simp add: update_tags update_rotation split: if_splits)
  show ?thesis using 1 2 3 4 5 6 update_effects [of now pos p] by blast
qed

theorem position_updates_throttled_witness:
  "broadcast_times [(100, [Num 1]), (120, [Num 2]), (160, [Num 3])] (fst (Player_new 0 0))
     = [100, 160] \<and>
   sorted_wrt (\<lambda>s t. s + 50 \<le> t)
     (broadcast_times [(100, [Num 1]), (120, [Num 2]), (160, [Num 3])] (fst (Player_new 0 0))) \<and>
   120 - positionDeltaTime (fst (Player_new 100 0)) < 50 \<and>
   updatePositionForOthers 120 [Num 2] (fst (Player_new 100 0)) = (fst (Player_new 100 0), []) \<and>
   CHR ''A'' \<in> set (tags_of (snd (updatePositionForOthers 160 [Num 2] (fst (Player_new 100 0))))) \<and>
   vx (position (fst (updatePositionForOthers 160 [Num 2] (fst (Player_new 100 0))))) = Num 2"
proof -
  have times: "broadcast_times [(100, [Num 1]), (120, [Num 2]), (160, [Num 3])]
      (fst (Player_new 0 0)) = [100, 160]"
    by (simp add: broadcast_times_def updatePositionForOthers_def updateFields_def updX_def
        updY_def updZ_def updYaw_def updCam_def changedX_def changedY_def changedZ_def
        changedYaw_def changedCam_def Player_new_def zero3_def one3_def at_index_def set_vx_def)
  have early: "120 - positionDeltaTime (fst (Player_new 100 0)) < 50"
    by (simp add: Player_new_def)
  have tag: "CHR ''A'' \<in> set (tags_of (snd (updatePositionForOthers 160 [Num 2]
      (fst (Player_new 100 0)))))"
    by (simp add: update_tags Player_new_def zero3_def at_index_def changedX_def)
  show ?thesis
    using position_updates_throttled
      [of "[(100, [Num 1]), (120, [Num 2]), (160, [Num 3])]" "fst (Player_new 0 0)"]
      position_updates_throttled [of "[]" "fst (Player_new 100 0)" 120 "[Num 2]"]
      position_updates_throttled [of "[]" "fst (Player_new 100 0)" 160 "[Num 2]"]
      times early tag
    by (simp add: at_index_def)
qed

text \<open>
  Claim C2 as stated fails on its second half. A session accepts x = 1 at time 100 and
  receives x = 2 at time 120, inside the same 50 ms window. The one broadcast of the window
  went out at 100 with x = 1; the value set last in the window, 2, is not stored and is
  never broadcast.
\<close>

theorem last_value_in_window_counterexample:
  "session [(100, [Num 1]), (120, [Num 2])] (fst (Player_new 0 0)) =
     [(100, Moved (Vector3 (Num 1) (Num 0) (Num 0)) (Num 0)),
      (100, BroadcastExcept [Some 1]
         (PlayerIds ((fst (Player_new 0 0))
            \<lparr>position := Vector3 (Num 1) (Num 0) (Num 0), positionDeltaTime := 100\<rparr>) ''A''))] \<and>
   position (session_end [(100, [Num 1]), (120, [Num 2])] (fst (Player_new 0 0))) =
     Vector3 (Num 1) (Num 0) (Num 0)"
  by (simp add: updatePositionForOthers_def updateFields_def updX_def updY_def updZ_def
      updYaw_def updCam_def changedX_def changedY_def changedZ_def changedYaw_def changedCam_def
      Player_new_def zero3_def one3_def at_index_def set_vx_def)

section \<open>Equipping tools\<close>








section \<open>Touch detection: events of a cycle\<close>

text \<open>
  A turn of the loop emits events for its own player only and changes the membership of
  that player only, so the events of a cycle and the touching-set after it are read off
  turn by turn.
\<close>

lemma emitted_append: "emitted e (xs @ ys) = emitted e xs + emitted e ys"
  by (simp add: emitted_def)

lemma hitPlayer_touching:
  "emitted (Touching p) (fst (snd (hitPlayer b fx r ts h))) =
     (if r = p \<and> touched b (h r) \<and> alive (h r) then 1 else 0)"
  by (simp add: hitPlayer_def emitted_def Let_def)

lemma hitPlayer_ended:
  "emitted (TouchingEnded p) (fst (snd (hitPlayer b fx r ts h))) =
     (if r = p \<and>
         ((touched b (h r) \<and> alive (h r) \<and> \<not> alive (onTouching fx r h r)) \<or>
          (\<not> (touched b (h r) \<and> alive (h r)) \<and> r \<in> set ts)) then 1 else 0)"
  by (auto simp add: hitPlayer_def emitted_def Let_def set_add_def)

lemma hitPlayer_member:
  "p \<in> set (fst (hitPlayer b fx r ts h)) \<longleftrightarrow>
     (if r = p then touched b (h r) \<and> alive (h r) \<and> alive (onTouching fx r h r)
      else p \<in> set ts)"
  by (auto simp add: hitPlayer_def Let_def set_add_def set_delete_def)

lemma hitLoop_Cons_set:
  "fst (hitLoop b fx (r # rs) ts h) =
     fst (hitLoop b fx rs (fst (hitPlayer b fx r ts h)) (snd (snd (hitPlayer b fx r ts h))))"
  by (simp split: prod.splits)

lemma hitLoop_Cons_events:
  "fst (snd (hitLoop b fx (r # rs) ts h)) =
     fst (snd (hitPlayer b fx r ts h)) @
     fst (snd (hitLoop b fx rs (fst (hitPlayer b fx r ts h)) (snd (snd (hitPlayer b fx r ts h)))))"
  by (simp split: prod.splits)

lemma hitLoop_Cons_players:
  "snd (snd (hitLoop b fx (r # rs) ts h)) =
     snd (snd (hitLoop b fx rs (fst (hitPlayer b fx r ts h)) (snd (snd (hitPlayer b fx r ts h)))))"
  by (simp split: prod.splits)

lemma hitLoop_append_set:
  "fst (hitLoop b fx (xs @ ys) ts h) =
     fst (hitLoop b fx ys (fst (hitLoop b fx xs ts h)) (snd (snd (hitLoop b fx xs ts h))))"
proof (induction xs arbitrary: ts h)
  case Nil
  show ?case by simp
next
  case (Cons r xs)
  show ?case
    unfolding append_Cons hitLoop_Cons_set hitLoop_Cons_players Cons.IH ..
qed

lemma hitLoop_append_events:
  "fst (snd (hitLoop b fx (xs @ ys) ts h)) =
     fst (snd (hitLoop b fx xs ts h)) @
     fst (snd (hitLoop b fx ys (fst (hitLoop b fx xs ts h)) (snd (snd (hitLoop b fx xs ts h)))))"
proof (induction xs arbitrary: ts h)
  case Nil
  show ?case by simp
next
  case (Cons r xs)
  show ?case
    unfolding append_Cons hitLoop_Cons_set hitLoop_Cons_events hitLoop_Cons_players Cons.IH
    by simp
qed

lemma hitLoop_other_touching:
  "p \<notin> set rs \<Longrightarrow> emitted (Touching p) (fst (snd (hitLoop b fx rs ts h))) = 0"
proof (induction rs arbitrary: ts h)
  case Nil
  show ?case by (simp add: emitted_def)
next
  case (Cons r rs)
  then have "r \<noteq> p" "p \<notin> set rs" by auto
  then show ?case
    unfolding hitLoop_Cons_events emitted_append hitPlayer_touching
    by (simp add: Cons.IH)
qed

lemma hitLoop_other_ended:
  "p \<notin> set rs \<Longrightarrow> emitted (TouchingEnded p) (fst (snd (hitLoop b fx rs ts h))) = 0"
proof (induction rs arbitrary: ts h)
  case Nil
  show ?case by (simp add: emitted_def)
next
  case (Cons r rs)
  then have "r \<noteq> p" "p \<notin> set rs" by auto
  then show ?case
    unfolding hitLoop_Cons_events emitted_append hitPlayer_ended
    by (simp add: Cons.IH)
qed

lemma hitLoop_other_member:
  "p \<notin> set rs \<Longrightarrow> p \<in> set (fst (hitLoop b fx rs ts h)) \<longleftrightarrow> p \<in> set ts"
proof (induction rs arbitrary: ts h)
  case Nil
  show ?case by simp
next
  case (Cons r rs)
  then have "r \<noteq> p" "p \<notin> set rs" by auto
  then show ?case
    unfolding hitLoop_Cons_set
    by (simp add: Cons.IH hitPlayer_member)
qed

text \<open>The scan, split at the turn of its \<open>i\<close>-th player.\<close>

lemma split_at_turn:
  assumes "distinct rs" "i < length rs"
  shows "rs = take i rs @ rs ! i # drop (Suc i) rs"
    and "rs ! i \<notin> set (take i rs)"
    and "rs ! i \<notin> set (drop (Suc i) rs)"
proof -
  show 1: "rs = take i rs @ rs ! i # drop (Suc i) rs"
    using assms(2) by (rule id_take_nth_drop)
  have "distinct (take i rs @ rs ! i # drop (Suc i) rs)" using assms(1) 1 by simp
  then show "rs ! i \<notin> set (take i rs)" "rs ! i \<notin> set (drop (Suc i) rs)"
    by auto
qed

lemma hitLoop_mid_touching:
  assumes "p \<notin> set xs" "p \<notin> set ys"
  shows "emitted (Touching p) (fst (snd (hitLoop b fx (xs @ p # ys) ts h))) =
     (if touched b (snd (snd (hitLoop b fx xs ts h)) p) \<and>
         alive (snd (snd (hitLoop b fx xs ts h)) p) then 1 else 0)"
  unfolding hitLoop_append_events hitLoop_Cons_events emitted_append hitPlayer_touching
  by (simp add: hitLoop_other_touching [OF assms(1)] hitLoop_other_touching [OF assms(2)])

lemma hitLoop_mid_ended:
  assumes "p \<notin> set xs" "p \<notin> set ys"
  shows "emitted (TouchingEnded p) (fst (snd (hitLoop b fx (xs @ p # ys) ts h))) =
     (if (touched b (snd (snd (hitLoop b fx xs ts h)) p) \<and>
          alive (snd (snd (hitLoop b fx xs ts h)) p) \<and>
          \<not> alive (onTouching fx p (snd (snd (hitLoop b fx xs ts h))) p)) \<or>
         (\<not> (touched b (snd (snd (hitLoop b fx xs ts h)) p) \<and>
             alive (snd (snd (hitLoop b fx xs ts h)) p)) \<and>
          p \<in> set ts) then 1 else 0)"
  unfolding hitLoop_append_events hitLoop_Cons_events emitted_append hitPlayer_ended
  by (simp add: hitLoop_other_ended [OF assms(1)] hitLoop_other_ended [OF assms(2)]
      hitLoop_other_member [OF assms(1)])

lemma hitLoop_mid_member:
  assumes "p \<notin> set xs" "p \<notin> set ys"
  shows "p \<in> set (fst (hitLoop b fx (xs @ p # ys) ts h)) \<longleftrightarrow>
     touched b (snd (snd (hitLoop b fx xs ts h)) p) \<and>
     alive (snd (snd (hitLoop b fx xs ts h)) p) \<and>
     alive (onTouching fx p (snd (snd (hitLoop b fx xs ts h))) p)"
  unfolding hitLoop_append_set hitLoop_Cons_set
  by (simp add: hitLoop_other_member [OF assms(2)] hitPlayer_member)

lemma hitLoop_turn_touching:
  assumes "distinct rs" "i < length rs"
  shows "emitted (Touching (rs ! i)) (fst (snd (hitLoop b fx rs ts h))) =
     (if touched b (snd (snd (hitLoop b fx (take i rs) ts h)) (rs ! i)) \<and>
         alive (snd (snd (hitLoop b fx (take i rs) ts h)) (rs ! i)) then 1 else 0)"
proof -
  note s = split_at_turn [OF assms]
  show ?thesis
    using hitLoop_mid_touching [OF s(2) s(3), of b fx ts h]
    unfolding s(1) [symmetric] .
qed

lemma hitLoop_turn_ended:
  assumes "distinct rs" "i < length rs"
  shows "emitted (TouchingEnded (rs ! i)) (fst (snd (hitLoop b fx rs ts h))) =
     (if (touched b (snd (snd (hitLoop b fx (take i rs) ts h)) (rs ! i)) \<and>
          alive (snd (snd (hitLoop b fx (take i rs) ts h)) (rs ! i)) \<and>
          \<not> alive (onTouching fx (rs ! i) (snd (snd (hitLoop b fx (take i rs) ts h))) (rs ! i))) \<or>
         (\<not> (touched b (snd (snd (hitLoop b fx (take i rs) ts h)) (rs ! i)) \<and>
             alive (snd (snd (hitLoop b fx (take i rs) ts h)) (rs ! i))) \<and>
          rs ! i \<in> set ts) then 1 else 0)"
proof -
  note s = split_at_turn [OF assms]
  show ?thesis
    using hitLoop_mid_ended [OF s(2) s(3), of b fx ts h]
    unfolding s(1) [symmetric] .
qed

lemma hitLoop_turn_member:
  assumes "distinct rs" "i < length rs"
  shows "rs ! i \<in> set (fst (hitLoop b fx rs ts h)) \<longleftrightarrow>
     touched b (snd (snd (hitLoop b fx (take i rs) ts h)) (rs ! i)) \<and>
     alive (snd (snd (hitLoop b fx (take i rs) ts h)) (rs ! i)) \<and>
     alive (onTouching fx (rs ! i) (snd (snd (hitLoop b fx (take i rs) ts h))) (rs ! i))"
proof -
  note s = split_at_turn [OF assms]
  show ?thesis
    using hitLoop_mid_member [OF s(2) s(3), of b fx ts h]
    unfolding s(1) [symmetric] .
qed

lemma touched_playersTouching [simp]: "touched (b\<lparr>playersTouching := ts\<rparr>) p = touched b p"
  by (simp add: touched_def)

lemma scanned_playersTouching [simp]:
  "scanned (b\<lparr>playersTouching := ts\<rparr>) gamePlayers = scanned b gamePlayers"
  by (simp add: scanned_def)

lemma distinct_scanned: "distinct gamePlayers \<Longrightarrow> distinct (scanned b gamePlayers)"
  by (simp add: scanned_def split: option.splits)

lemma hitLoop_brick: "hitLoop (b\<lparr>playersTouching := x\<rparr>) fx rs ts h = hitLoop b fx rs ts h"
  by (induction rs arbitrary: ts h) (simp_all add: hitPlayer_def)

lemma tick_events:
  "events_of (hitMonitorTick b fx h gamePlayers) =
     (if gamePlayers = [] then []
      else fst (snd (hitLoop b fx (scanned b gamePlayers) (pruned b h) h)))"
  by (simp add: events_of_def hitMonitorTick_def hitDetection_def Let_def hitLoop_brick
      split: prod.splits)

lemma tick_set:
  "playersTouching (brick_after (hitMonitorTick b fx h gamePlayers)) =
     (if gamePlayers = [] then pruned b h
      else fst (hitLoop b fx (scanned b gamePlayers) (pruned b h) h))"
  by (simp add: brick_after_def hitMonitorTick_def hitDetection_def Let_def hitLoop_brick
      split: prod.splits)

lemma tick_players:
  "players_after (hitMonitorTick b fx h gamePlayers) =
     (if gamePlayers = [] then h
      else snd (snd (hitLoop b fx (scanned b gamePlayers) (pruned b h) h)))"
  by (simp add: players_after_def hitMonitorTick_def hitDetection_def Let_def hitLoop_brick
      split: prod.splits)

lemma pruned_member: "p \<in> set (pruned b h) \<longleftrightarrow> p \<in> set (playersTouching b) \<and> \<not> destroyed (h p)"
  by (auto simp add: pruned_def)

lemma tick_turn_touching:
  assumes "distinct gamePlayers" "gamePlayers \<noteq> []" "i < length (scanned b gamePlayers)"
  shows "emitted (Touching (scanned b gamePlayers ! i))
           (events_of (hitMonitorTick b fx h gamePlayers)) =
     (if touched b (players_at_turn b fx h gamePlayers i (scanned b gamePlayers ! i)) \<and>
         alive (players_at_turn b fx h gamePlayers i (scanned b gamePlayers ! i))
      then 1 else 0)"
  unfolding tick_events players_at_turn_def
  using hitLoop_turn_touching [OF distinct_scanned [OF assms(1)] assms(3)] assms(2)
  by simp

lemma tick_turn_ended:
  assumes "distinct gamePlayers" "gamePlayers \<noteq> []" "i < length (scanned b gamePlayers)"
  shows "emitted (TouchingEnded (scanned b gamePlayers ! i))
           (events_of (hitMonitorTick b fx h gamePlayers)) =
     (if (touched b (players_at_turn b fx h gamePlayers i (scanned b gamePlayers ! i)) \<and>
          alive (players_at_turn b fx h gamePlayers i (scanned b gamePlayers ! i)) \<and>
          \<not> alive (onTouching fx (scanned b gamePlayers ! i)
                     (players_at_turn b fx h gamePlayers i) (scanned b gamePlayers ! i))) \<or>
         (\<not> (touched b (players_at_turn b fx h gamePlayers i (scanned b gamePlayers ! i)) \<and>
             alive (players_at_turn b fx h gamePlayers i (scanned b gamePlayers ! i))) \<and>
          scanned b gamePlayers ! i \<in> set (playersTouching b) \<and>
          \<not> destroyed (h (scanned b gamePlayers ! i)))
      then 1 else 0)"
  unfolding tick_events players_at_turn_def
  using hitLoop_turn_ended [OF distinct_scanned [OF assms(1)] assms(3)] assms(2)
  by (simp add: pruned_member)

lemma tick_turn_member:
  assumes "distinct gamePlayers" "gamePlayers \<noteq> []" "i < length (scanned b gamePlayers)"
  shows "scanned b gamePlayers ! i \<in>
           set (playersTouching (brick_after (hitMonitorTick b fx h gamePlayers))) \<longleftrightarrow>
     touched b (players_at_turn b fx h gamePlayers i (scanned b gamePlayers ! i)) \<and>
     alive (players_at_turn b fx h gamePlayers i (scanned b gamePlayers ! i)) \<and>
     alive (onTouching fx (scanned b gamePlayers ! i)
              (players_at_turn b fx h gamePlayers i) (scanned b gamePlayers ! i))"
  unfolding tick_set players_at_turn_def
  using hitLoop_turn_member [OF distinct_scanned [OF assms(1)] assms(3)] assms(2)
  by simp

lemma tick_other:
  assumes "gamePlayers = [] \<or> q \<notin> set (scanned b gamePlayers)"
  shows "emitted (Touching q) (events_of (hitMonitorTick b fx h gamePlayers)) = 0"
    and "emitted (TouchingEnded q) (events_of (hitMonitorTick b fx h gamePlayers)) = 0"
    and "q \<in> set (playersTouching (brick_after (hitMonitorTick b fx h gamePlayers))) \<longleftrightarrow>
           q \<in> set (playersTouching b) \<and> \<not> destroyed (h q)"
proof -
  have e: "emitted e [] = 0" for e by (simp add: emitted_def)
  show "emitted (Touching q) (events_of (hitMonitorTick b fx h gamePlayers)) = 0"
    using assms by (auto simp add: tick_events e hitLoop_other_touching)
  show "emitted (TouchingEnded q) (events_of (hitMonitorTick b fx h gamePlayers)) = 0"
    using assms by (auto simp add: tick_events e hitLoop_other_ended)
  show "q \<in> set (playersTouching (brick_after (hitMonitorTick b fx h gamePlayers))) \<longleftrightarrow>
           q \<in> set (playersTouching b) \<and> \<not> destroyed (h q)"
    using assms by (auto simp add: tick_set pruned_member hitLoop_other_member)
qed

text \<open>Without listeners the players stay as they are throughout the scan.\<close>

lemma hitPlayer_no_listeners: "snd (snd (hitPlayer b no_listeners r ts h)) = h"
  by (simp add: hitPlayer_def no_listeners_def Let_def)

lemma hitLoop_no_listeners: "snd (snd (hitLoop b no_listeners rs ts h)) = h"
proof (induction rs arbitrary: ts)
  case Nil
  show ?case by simp
next
  case (Cons r rs)
  show ?case
    unfolding hitLoop_Cons_players hitPlayer_no_listeners Cons.IH ..
qed

lemma players_at_turn_no_listeners: "players_at_turn b no_listeners h gamePlayers i = h"
  by (simp add: players_at_turn_def hitLoop_no_listeners)

lemma players_at_first_turn: "players_at_turn b fx h gamePlayers 0 = h"
  by (simp add: players_at_turn_def)

text \<open>
  Claim C1, amended. In every detection cycle (\<open>Game.players\<close> not empty, each player
  in it once), the \<open>touching\<close> event is emitted exactly once for each scanned actor
  that, when its turn in the scan comes, overlaps the brick (within the 0.4 tolerance on
  all three axes) and is alive, and not at all for any other actor. After the cycle such an
  actor is in the touching-set exactly if it is still alive once the listeners of the
  event have run. So during one continuous overlap the event is emitted once per cycle, in
  every cycle, not only on the transition.
\<close>

theorem touching_every_cycle:
  assumes "distinct gamePlayers"
  shows "(gamePlayers \<noteq> [] \<and> i < length (scanned b gamePlayers) \<longrightarrow>
           emitted (Touching (scanned b gamePlayers ! i))
             (events_of (hitMonitorTick b fx h gamePlayers)) =
             (if touched b (players_at_turn b fx h gamePlayers i (scanned b gamePlayers ! i)) \<and>
                 alive (players_at_turn b fx h gamePlayers i (scanned b gamePlayers ! i))
              then 1 else 0) \<and>
           (scanned b gamePlayers ! i \<in>
              set (playersTouching (brick_after (hitMonitorTick b fx h gamePlayers))) \<longleftrightarrow>
            touched b (players_at_turn b fx h gamePlayers i (scanned b gamePlayers ! i)) \<and>
            alive (players_at_turn b fx h gamePlayers i (scanned b gamePlayers ! i)) \<and>
            alive (onTouching fx (scanned b gamePlayers ! i)
                     (players_at_turn b fx h gamePlayers i) (scanned b gamePlayers ! i)))) \<and>
         (gamePlayers = [] \<or> q \<notin> set (scanned b gamePlayers) \<longrightarrow>
           emitted (Touching q) (events_of (hitMonitorTick b fx h gamePlayers)) = 0)"
proof (intro conjI impI)
  assume a: "gamePlayers \<noteq> [] \<and> i < length (scanned b gamePlayers)"
  show "emitted (Touching (scanned b gamePlayers ! i))
             (events_of (hitMonitorTick b fx h gamePlayers)) =
             (if touched b (players_at_turn b fx h gamePlayers i (scanned b gamePlayers ! i)) \<and>
                 alive (players_at_turn b fx h gamePlayers i (scanned b gamePlayers ! i))
              then 1 else 0)"
    using a by (intro tick_turn_touching assms) simp_all
  show "scanned b gamePlayers ! i \<in>
              set (playersTouching (brick_after (hitMonitorTick b fx h gamePlayers))) \<longleftrightarrow>
            touched b (players_at_turn b fx h gamePlayers i (scanned b gamePlayers ! i)) \<and>
            alive (players_at_turn b fx h gamePlayers i (scanned b gamePlayers ! i)) \<and>
            alive (onTouching fx (scanned b gamePlayers ! i)
                     (players_at_turn b fx h gamePlayers i) (scanned b gamePlayers ! i))"
    using a by (intro tick_turn_member assms) simp_all
next
  assume "gamePlayers = [] \<or> q \<notin> set (scanned b gamePlayers)"
  then show "emitted (Touching q) (events_of (hitMonitorTick b fx h gamePlayers)) = 0"
    by (rule tick_other)
qed

text \<open>
  Claim C7, amended. In every detection cycle (each player in \<open>Game.players\<close> once),
  \<open>touchingEnded\<close> is emitted exactly once for a scanned actor in two cases: it was in
  the touching-set, is not destroyed, and when its turn comes it no longer overlaps or is
  not alive; or it overlaps and is alive when its turn comes (so that \<open>touching\<close> is
  emitted) and is no longer alive once the listeners of \<open>touching\<close> have run. In both
  cases it is out of the touching-set after the cycle. The event is emitted for no other
  actor: an actor that is not scanned (any actor, when \<open>Game.players\<close> is empty) gets
  none and stays in the touching-set exactly if it was in it and is not destroyed, so a
  destroyed actor is dropped from the set without the event.
\<close>

theorem touchingEnded_once:
  assumes "distinct gamePlayers"
  shows "(gamePlayers \<noteq> [] \<and> i < length (scanned b gamePlayers) \<longrightarrow>
           emitted (TouchingEnded (scanned b gamePlayers ! i))
             (events_of (hitMonitorTick b fx h gamePlayers)) =
             (if (touched b (players_at_turn b fx h gamePlayers i (scanned b gamePlayers ! i)) \<and>
                  alive (players_at_turn b fx h gamePlayers i (scanned b gamePlayers ! i)) \<and>
                  \<not> alive (onTouching fx (scanned b gamePlayers ! i)
                             (players_at_turn b fx h gamePlayers i) (scanned b gamePlayers ! i))) \<or>
                 (\<not> (touched b (players_at_turn b fx h gamePlayers i (scanned b gamePlayers ! i)) \<and>
                     alive (players_at_turn b fx h gamePlayers i (scanned b gamePlayers ! i))) \<and>
                  scanned b gamePlayers ! i \<in> set (playersTouching b) \<and>
                  \<not> destroyed (h (scanned b gamePlayers ! i)))
              then 1 else 0) \<and>
           (emitted (TouchingEnded (scanned b gamePlayers ! i))
              (events_of (hitMonitorTick b fx h gamePlayers)) = 1 \<longrightarrow>
            scanned b gamePlayers ! i \<notin>
              set (playersTouching (brick_after (hitMonitorTick b fx h gamePlayers))))) \<and>
         (gamePlayers = [] \<or> q \<notin> set (scanned b gamePlayers) \<longrightarrow>
           emitted (TouchingEnded q) (events_of (hitMonitorTick b fx h gamePlayers)) = 0 \<and>
           (q \<in> set (playersTouching (brick_after (hitMonitorTick b fx h gamePlayers))) \<longleftrightarrow>
            q \<in> set (playersTouching b) \<and> \<not> destroyed (h q)))"
proof (intro conjI impI)
  assume a: "gamePlayers \<noteq> [] \<and> i < length (scanned b gamePlayers)"
  then have n: "gamePlayers \<noteq> []" and l: "i < length (scanned b gamePlayers)" by simp_all
  show e: "emitted (TouchingEnded (scanned b gamePlayers ! i))
             (events_of (hitMonitorTick b fx h gamePlayers)) =
             (if (touched b (players_at_turn b fx h gamePlayers i (scanned b gamePlayers ! i)) \<and>
                  alive (players_at_turn b fx h gamePlayers i (scanned b gamePlayers ! i)) \<and>
                  \<not> alive (onTouching fx (scanned b gamePlayers ! i)
                             (players_at_turn b fx h gamePlayers i) (scanned b gamePlayers ! i))) \<or>
                 (\<not> (touched b (players_at_turn b fx h gamePlayers i (scanned b gamePlayers ! i)) \<and>
                     alive (players_at_turn b fx h gamePlayers i (scanned b gamePlayers ! i))) \<and>
                  scanned b gamePlayers ! i \<in> set (playersTouching b) \<and>
                  \<not> destroyed (h (scanned b gamePlayers ! i)))
              then 1 else 0)"
    by (rule tick_turn_ended [OF assms n l])
  assume "emitted (TouchingEnded (scanned b gamePlayers ! i))
              (events_of (hitMonitorTick b fx h gamePlayers)) = 1"
  then show "scanned b gamePlayers ! i \<notin>
              set (playersTouching (brick_after (hitMonitorTick b fx h gamePlayers)))"
    unfolding e tick_turn_member [OF assms n l] by (auto split: if_splits)
next
  assume o: "gamePlayers = [] \<or> q \<notin> set (scanned b gamePlayers)"
  show "emitted (TouchingEnded q) (events_of (hitMonitorTick b fx h gamePlayers)) = 0"
    using o by (rule tick_other)
  show "q \<in> set (playersTouching (brick_after (hitMonitorTick b fx h gamePlayers))) \<longleftrightarrow>
            q \<in> set (playersTouching b) \<and> \<not> destroyed (h q)"
    using o by (rule tick_other)
qed

lemma ex_touched:
  "touched (fst (Brick_new zero3 (Vector3 (Num 5) (Num 5) (Num 5)) ''#f54242'' 0))
     ((fst (Player_new 0 0))\<lparr>alive := True\<rparr>)"
  by code_simp

lemma ex_not_touched:
  "\<not> touched (fst (Brick_new zero3 (Vector3 (Num 5) (Num 5) (Num 5)) ''#f54242'' 0))
     ((fst (Player_new 0 0))\<lparr>alive := True, position := Vector3 (Num 20) (Num 0) (Num 0)\<rparr>)"
  by code_simp

lemma tick_one_player:
  assumes "socket b = None"
  shows "hitMonitorTick b fx h [r] =
     (case hitPlayer b fx r (pruned b h) h of
        (ts, evs, h') \<Rightarrow> (b\<lparr>playersTouching := ts\<rparr>, evs, h'))"
  using assms
  by (simp add: hitMonitorTick_def hitDetection_def scanned_def hitPlayer_def Let_def)

text \<open>
  Claim C1 as stated fails: a player standing on a brick in two consecutive cycles gets the
  \<open>touching\<close> event in both (no listener changes the player).
\<close>

theorem touching_repeats_counterexample:
  "events_of (hitMonitorTick (fst (Brick_new zero3 (Vector3 (Num 5) (Num 5) (Num 5)) ''#f54242'' 0))
      no_listeners (\<lambda>r. (fst (Player_new 0 0))\<lparr>alive := True\<rparr>) [1]) = [Touching 1] \<and>
   events_of (hitMonitorTick
      (brick_after
         (hitMonitorTick (fst (Brick_new zero3 (Vector3 (Num 5) (Num 5) (Num 5)) ''#f54242'' 0))
            no_listeners (\<lambda>r. (fst (Player_new 0 0))\<lparr>alive := True\<rparr>) [1]))
      no_listeners
      (players_after
         (hitMonitorTick (fst (Brick_new zero3 (Vector3 (Num 5) (Num 5) (Num 5)) ''#f54242'' 0))
            no_listeners (\<lambda>r. (fst (Player_new 0 0))\<lparr>alive := True\<rparr>) [1]))
      [1]) = [Touching 1]"
proof -
  define b0 where "b0 = fst (Brick_new zero3 (Vector3 (Num 5) (Num 5) (Num 5)) ''#f54242'' 0)"
  define p0 where "p0 = (fst (Player_new 0 0))\<lparr>alive := True\<rparr>"
  have t: "touched b0 p0" unfolding b0_def p0_def by (rule ex_touched)
  have a: "alive p0" "\<not> destroyed p0" by (simp_all add: p0_def Player_new_def)
  have s: "socket b0 = None" "playersTouching b0 = []" by (simp_all add: b0_def Brick_new_def)
  have 1: "hitMonitorTick b0 no_listeners (\<lambda>r. p0) [1] =
      (b0\<lparr>playersTouching := [1]\<rparr>, [Touching 1], \<lambda>r. p0)"
    by (simp add: tick_one_player s hitPlayer_def t a set_add_def pruned_def no_listeners_def)
  have 2: "hitMonitorTick (b0\<lparr>playersTouching := [1]\<rparr>) no_listeners (\<lambda>r. p0) [1] =
      (b0\<lparr>playersTouching := [1]\<rparr>, [Touching 1], \<lambda>r. p0)"
    by (simp add: tick_one_player s hitPlayer_def t a set_add_def pruned_def no_listeners_def)
  show ?thesis
    unfolding b0_def [symmetric] p0_def [symmetric] 1 events_of_def brick_after_def
      players_after_def fst_conv snd_conv 2
    by simp
qed

theorem touching_every_cycle_witness:
  "distinct [1::nat] \<and> [1::nat] \<noteq> [] \<and>
   0 < length (scanned (fst (Brick_new zero3 (Vector3 (Num 5) (Num 5) (Num 5)) ''#f54242'' 0)) [1]) \<and>
   scanned (fst (Brick_new zero3 (Vector3 (Num 5) (Num 5) (Num 5)) ''#f54242'' 0)) [1] ! 0 = 1 \<and>
   2 \<notin> set (scanned (fst (Brick_new zero3 (Vector3 (Num 5) (Num 5) (Num 5)) ''#f54242'' 0)) [1]) \<and>
   touched (fst (Brick_new zero3 (Vector3 (Num 5) (Num 5) (Num 5)) ''#f54242'' 0))
     ((fst (Player_new 0 0))\<lparr>alive := True\<rparr>) \<and>
   alive ((fst (Player_new 0 0))\<lparr>alive := True\<rparr>) \<and>
   emitted (Touching 1)
     (events_of (hitMonitorTick (fst (Brick_new zero3 (Vector3 (Num 5) (Num 5) (Num 5)) ''#f54242'' 0))
        no_listeners (\<lambda>r. (fst (Player_new 0 0))\<lparr>alive := True\<rparr>) [1])) = 1 \<and>
   1 \<in> set (playersTouching (brick_after
     (hitMonitorTick (fst (Brick_new zero3 (Vector3 (Num 5) (Num 5) (Num 5)) ''#f54242'' 0))
        no_listeners (\<lambda>r. (fst (Player_new 0 0))\<lparr>alive := True\<rparr>) [1]))) \<and>
   emitted (Touching 2)
     (events_of (hitMonitorTick (fst (Brick_new zero3 (Vector3 (Num 5) (Num 5) (Num 5)) ''#f54242'' 0))
        no_listeners (\<lambda>r. (fst (Player_new 0 0))\<lparr>alive := True\<rparr>) [1])) = 0"
proof -
  have d: "distinct [1::nat]" by simp
  have s: "scanned (fst (Brick_new zero3 (Vector3 (Num 5) (Num 5) (Num 5)) ''#f54242'' 0)) [1] = [1]"
    by (simp add: scanned_def Brick_new_def)
  have a: "alive ((fst (Player_new 0 0))\<lparr>alive := True\<rparr>)" by simp
  have n: "onTouching no_listeners = (\<lambda>r h. h)" by (simp add: no_listeners_def)
  show ?thesis
    using touching_every_cycle [OF d, of 0
        "fst (Brick_new zero3 (Vector3 (Num 5) (Num 5) (Num 5)) ''#f54242'' 0)"
        no_listeners "\<lambda>r. (fst (Player_new 0 0))\<lparr>alive := True\<rparr>" 2] ex_touched s a n
    by (simp add: players_at_first_turn)
qed

theorem touchingEnded_once_witness:
  "distinct [1::nat] \<and> [1::nat] \<noteq> [] \<and>
   0 < length (scanned ((fst (Brick_new zero3 (Vector3 (Num 5) (Num 5) (Num 5)) ''#f54242'' 0))
                          \<lparr>playersTouching := [2]\<rparr>) [1]) \<and>
   scanned ((fst (Brick_new zero3 (Vector3 (Num 5) (Num 5) (Num 5)) ''#f54242'' 0))
              \<lparr>playersTouching := [2]\<rparr>) [1] ! 0 = 1 \<and>
   2 \<notin> set (scanned ((fst (Brick_new zero3 (Vector3 (Num 5) (Num 5) (Num 5)) ''#f54242'' 0))
                        \<lparr>playersTouching := [2]\<rparr>) [1]) \<and>
   emitted (TouchingEnded 1)
     (events_of (hitMonitorTick
        ((fst (Brick_new zero3 (Vector3 (Num 5) (Num 5) (Num 5)) ''#f54242'' 0))
           \<lparr>playersTouching := [2]\<rparr>)
        kill_on_touch
        (\<lambda>r. if r = 1 then (fst (Player_new 0 0))\<lparr>alive := True\<rparr>
             else (fst (Player_new 0 1))\<lparr>alive := True, destroyed := True\<rparr>) [1])) = 1 \<and>
   1 \<notin> set (playersTouching (brick_after (hitMonitorTick
        ((fst (Brick_new zero3 (Vector3 (Num 5) (Num 5) (Num 5)) ''#f54242'' 0))
           \<lparr>playersTouching := [2]\<rparr>)
        kill_on_touch
        (\<lambda>r. if r = 1 then (fst (Player_new 0 0))\<lparr>alive := True\<rparr>
             else (fst (Player_new 0 1))\<lparr>alive := True, destroyed := True\<rparr>) [1]))) \<and>
   emitted (TouchingEnded 2)
     (events_of (hitMonitorTick
        ((fst (Brick_new zero3 (Vector3 (Num 5) (Num 5) (Num 5)) ''#f54242'' 0))
           \<lparr>playersTouching := [2]\<rparr>)
        kill_on_touch
        (\<lambda>r. if r = 1 then (fst (Player_new 0 0))\<lparr>alive := True\<rparr>
             else (fst (Player_new 0 1))\<lparr>alive := True, destroyed := True\<rparr>) [1])) = 0 \<and>
   2 \<notin> set (playersTouching (brick_after (hitMonitorTick
        ((fst (Brick_new zero3 (Vector3 (Num 5) (Num 5) (Num 5)) ''#f54242'' 0))
           \<lparr>playersTouching := [2]\<rparr>)
        kill_on_touch
        (\<lambda>r. if r = 1 then (fst (Player_new 0 0))\<lparr>alive := True\<rparr>
             else (fst (Player_new 0 1))\<lparr>alive := True, destroyed := True\<rparr>) [1])))"
proof -
  define b0 where "b0 = (fst (Brick_new zero3 (Vector3 (Num 5) (Num 5) (Num 5)) ''#f54242'' 0))
      \<lparr>playersTouching := [2]\<rparr>"
  define p0 where "p0 = (fst (Player_new 0 0))\<lparr>alive := True\<rparr>"
  define gone where "gone = (fst (Player_new 0 1))\<lparr>alive := True, destroyed := True\<rparr>"
  define h0 where "h0 = (\<lambda>r::nat. if r = 1 then p0 else gone)"
  have d: "distinct [1::nat]" by simp
  have s: "scanned b0 [1] = [1]" by (simp add: b0_def scanned_def Brick_new_def)
  have t: "touched b0 (h0 1)" unfolding b0_def h0_def p0_def using ex_touched by simp
  have a: "alive (h0 1)" by (simp add: h0_def p0_def)
  have k: "\<not> alive (onTouching kill_on_touch 1 h0 1)"
    by (simp add: kill_on_touch_def kill_def)
  have g: "destroyed (h0 2)" by (simp add: h0_def gone_def)
  show ?thesis
    unfolding b0_def [symmetric] p0_def [symmetric] gone_def [symmetric] h0_def [symmetric]
    using touchingEnded_once [OF d, of 0 b0 kill_on_touch h0 2] s t a k g
    by (simp add: players_at_first_turn)
qed

text \<open>
  Claim C7 as stated fails for a destroyed actor: player 1 is in the touching-set and has
  left the game; the next cycle drops it from the set and emits nothing.
\<close>

theorem destroyed_actor_no_touchingEnded_counterexample:
  "1 \<in> set (playersTouching
     ((fst (Brick_new zero3 (Vector3 (Num 5) (Num 5) (Num 5)) ''#f54242'' 0))
        \<lparr>playersTouching := [1]\<rparr>)) \<and>
   destroyed ((fst (Player_new 0 0))\<lparr>alive := True, destroyed := True\<rparr>) \<and>
   events_of (hitMonitorTick
     ((fst (Brick_new zero3 (Vector3 (Num 5) (Num 5) (Num 5)) ''#f54242'' 0))
        \<lparr>playersTouching := [1]\<rparr>)
     no_listeners
     (\<lambda>r. if r = 1 then (fst (Player_new 0 0))\<lparr>alive := True, destroyed := True\<rparr>
          else (fst (Player_new 0 1))\<lparr>alive := True,
                 position := Vector3 (Num 20) (Num 0) (Num 0)\<rparr>) [2]) = [] \<and>
   playersTouching (brick_after (hitMonitorTick
     ((fst (Brick_new zero3 (Vector3 (Num 5) (Num 5) (Num 5)) ''#f54242'' 0))
        \<lparr>playersTouching := [1]\<rparr>)
     no_listeners
     (\<lambda>r. if r = 1 then (fst (Player_new 0 0))\<lparr>alive := True, destroyed := True\<rparr>
          else (fst (Player_new 0 1))\<lparr>alive := True,
                 position := Vector3 (Num 20) (Num 0) (Num 0)\<rparr>) [2])) = []"
proof -
  define b0 where "b0 = fst (Brick_new zero3 (Vector3 (Num 5) (Num 5) (Num 5)) ''#f54242'' 0)"
  define gone where "gone = (fst (Player_new 0 0))\<lparr>alive := True, destroyed := True\<rparr>"
  define far where "far = (fst (Player_new 0 1))\<lparr>alive := True,
                 position := Vector3 (Num 20) (Num 0) (Num 0)\<rparr>"
  have "\<not> touched (fst (Brick_new zero3 (Vector3 (Num 5) (Num 5) (Num 5)) ''#f54242'' 0))
     ((fst (Player_new 0 1))\<lparr>alive := True, position := Vector3 (Num 20) (Num 0) (Num 0)\<rparr>)"
    by code_simp
  then have t: "\<not> touched b0 far" by (simp add: b0_def far_def)
  have a: "destroyed gone" "\<not> destroyed far" by (simp_all add: gone_def far_def Player_new_def)
  have s: "socket b0 = None" by (simp add: b0_def Brick_new_def)
  have 1: "hitMonitorTick (b0\<lparr>playersTouching := [1]\<rparr>) no_listeners
       (\<lambda>r. if r = 1 then gone else far) [2] =
       (b0\<lparr>playersTouching := []\<rparr>, [], \<lambda>r. if r = 1 then gone else far)"
    by (simp add: tick_one_player s hitPlayer_def t a pruned_def)
  show ?thesis
    unfolding b0_def [symmetric] gone_def [symmetric] far_def [symmetric] 1 events_of_def
      brick_after_def fst_conv snd_conv
    using a by simp
qed

section \<open>Destroying bricks and sound emitters\<close>

lemma clearSteps_eq: "clearSteps ls ts = ts - set ls"
  unfolding clearSteps_def
  by (induction ls arbitrary: ts) (auto simp add: clearInterval_def)


lemma cleanup_fields:
  "world_bricks (cleanup r g) = world_bricks g"
  "playerStore (cleanup r g) = playerStore g"
  "socket (brickStore (cleanup r g) r) = socket (brickStore g r)"
  "destroyed (brickStore (cleanup r g) r) = destroyed (brickStore g r)"
  by (simp_all add: cleanup_def Let_def)







lemma Brick_destroy_begin_ok:
  "\<not> destroyed (brickStore g r) \<Longrightarrow> fst (Brick_destroy_begin r g) = Inr ()"
  by (simp add: Brick_destroy_begin_def Let_def)




text \<open>
  The first step leaves \<open>destroyed\<close> as it is, so a call made while an earlier one waits
  for its packet is not rejected: it runs the first step again and sends the packet again.
\<close>

lemma Brick_destroy_begin_pending:
  "\<not> destroyed (brickStore g r) \<Longrightarrow>
     \<not> destroyed (brickStore (fst (snd (Brick_destroy_begin r g))) r)"
  by (simp add: Brick_destroy_begin_def Let_def cleanup_fields split: option.splits)

lemma Brick_destroy_while_pending:
  "\<not> destroyed (brickStore g r) \<Longrightarrow>
     fst (Brick_destroy_begin r (fst (snd (Brick_destroy_begin r g)))) = Inr ()"
  by (rule Brick_destroy_begin_ok [OF Brick_destroy_begin_pending])





lemma SoundEmitter_destroy_begin_fields:
  "\<not> destroyed (soundStore g r) \<Longrightarrow> fst (SoundEmitter_destroy_begin r g) = Inr ()"
  "\<not> destroyed (soundStore g r) \<Longrightarrow>
     timers (fst (snd (SoundEmitter_destroy_begin r g))) = timers g - set (steps (soundStore g r))"
  "\<not> destroyed (soundStore g r) \<Longrightarrow>
     world_sounds (fst (snd (SoundEmitter_destroy_begin r g))) = splice_out r (world_sounds g)"
  "\<not> destroyed (soundStore g r) \<Longrightarrow>
     \<not> destroyed (soundStore (fst (snd (SoundEmitter_destroy_begin r g))) r)"
  by (simp_all add: SoundEmitter_destroy_begin_def Let_def clearSteps_eq)

lemma SoundEmitter_destroy_while_pending:
  "\<not> destroyed (soundStore g r) \<Longrightarrow>
     fst (SoundEmitter_destroy_begin r (fst (snd (SoundEmitter_destroy_begin r g)))) = Inr ()"
  by (rule SoundEmitter_destroy_begin_fields(1) [OF SoundEmitter_destroy_begin_fields(4)])





section \<open>Identifiers are never reused\<close>

lemma construct_netId:
  "obj_netId (fst (construct k c)) = Some (counter_of (fst (construct k c)) c + 1)"
  by (cases k) (simp_all add: Brick_new_def Player_new_def SoundEmitter_new_def)

lemma construct_counter:
  "counter_of obj (snd (construct k c)) =
     (if same_kind obj (fst (construct k c)) then counter_of obj c + 1 else counter_of obj c)"
  by (cases k; cases obj) (simp_all add: Brick_new_def Player_new_def SoundEmitter_new_def)

lemma constructions_Cons:
  "constructions (k # ks) c = fst (construct k c) # constructions ks (snd (construct k c))"
  by (simp split: prod.splits)

lemma constructions_above:
  "obj \<in> set (constructions ks c) \<Longrightarrow> \<exists>n. obj_netId obj = Some n \<and> counter_of obj c < n"
proof (induction ks arbitrary: c)
  case Nil
  then show ?case by simp
next
  case (Cons k ks)
  from Cons.prems consider "obj = fst (construct k c)"
    | "obj \<in> set (constructions ks (snd (construct k c)))"
    by (auto simp add: constructions_Cons simp del: constructions.simps)
  then show ?case
  proof cases
    case 1
    then show ?thesis using construct_netId [of k c] by simp
  next
    case 2
    from Cons.IH [OF 2] obtain n where
      n: "obj_netId obj = Some n" "counter_of obj (snd (construct k c)) < n" by blast
    then show ?thesis by (auto simp add: construct_counter split: if_splits)
  qed
qed

lemma same_kind_counter: "same_kind a b \<Longrightarrow> counter_of a c = counter_of b c"
  by (cases a; cases b) simp_all

lemma same_kind_sym: "same_kind a b \<Longrightarrow> same_kind b a"
  by (cases a; cases b) simp_all

lemma length_constructions: "length (constructions ks c) = length ks"
  by (induction ks arbitrary: c) (simp_all split: prod.splits)

lemma constructions_increasing:
  "i < j \<Longrightarrow> j < length ks \<Longrightarrow>
   same_kind (constructions ks c ! i) (constructions ks c ! j) \<Longrightarrow>
   \<exists>m n. obj_netId (constructions ks c ! i) = Some m \<and>
         obj_netId (constructions ks c ! j) = Some n \<and> m < n"
proof (induction ks arbitrary: c i j)
  case Nil
  then show ?case by simp
next
  case (Cons k ks)
  let ?o = "fst (construct k c)" and ?c = "snd (construct k c)"
  obtain j' where j: "j = Suc j'" using Cons.prems(1) by (cases j) simp_all
  have j'len: "j' < length ks" using Cons.prems(2) j by simp
  show ?case
  proof (cases i)
    case 0
    let ?b = "constructions ks ?c ! j'"
    have mem: "?b \<in> set (constructions ks ?c)"
      using j'len by (simp add: length_constructions)
    from constructions_above [OF mem] obtain n where
      n: "obj_netId ?b = Some n" "counter_of ?b ?c < n" by blast
    have sk: "same_kind ?o ?b"
      using Cons.prems(3) 0 j by (simp add: constructions_Cons del: constructions.simps)
    have "counter_of ?b ?c = counter_of ?b c + 1"
      using same_kind_sym [OF sk] by (simp add: construct_counter)
    moreover have "counter_of ?b c = counter_of ?o c" using sk by (simp add: same_kind_counter)
    ultimately have "counter_of ?o c + 1 < n" using n by simp
    then show ?thesis using n construct_netId [of k c] 0 j
      by (simp add: constructions_Cons del: constructions.simps)
  next
    case (Suc i')
    have "i' < j'" using Cons.prems(1) Suc j by simp
    moreover have "same_kind (constructions ks ?c ! i') (constructions ks ?c ! j')"
      using Cons.prems(3) Suc j by (simp add: constructions_Cons del: constructions.simps)
    ultimately show ?thesis using Cons.IH [of i' j' ?c] j'len Suc j
      by (simp add: constructions_Cons del: constructions.simps)
  qed
qed

text \<open>
  Claim C8. Every Brick, Player and SoundEmitter gets its \<open>netId\<close> at construction,
  and whatever the process constructs, in whatever order, an entity's \<open>netId\<close> is
  greater than that of every entity of the same kind constructed before it: no identifier
  is given twice within a kind, so none is reused while its entity is live (\<open>destroy\<close>
  only clears the field of the destroyed entity).
\<close>

theorem netId_unique:
  "i < j \<and> j < length ks \<and>
   same_kind (constructions ks process_start ! i) (constructions ks process_start ! j) \<longrightarrow>
   (\<exists>m n. obj_netId (constructions ks process_start ! i) = Some m \<and>
          obj_netId (constructions ks process_start ! j) = Some n \<and> m < n)"
  using constructions_increasing [of i j ks process_start] by blast

theorem netId_unique_witness:
  "(0::nat) < 2 \<and> 2 < length [NewBrick zero3 one3 ''#C0C0C0'', NewPlayer 0,
      NewBrick zero3 one3 ''#C0C0C0''] \<and>
   map obj_netId (constructions [NewBrick zero3 one3 ''#C0C0C0'', NewPlayer 0,
      NewBrick zero3 one3 ''#C0C0C0''] process_start) = [Some 1, Some 1, Some 2] \<and>
   same_kind
     (constructions [NewBrick zero3 one3 ''#C0C0C0'', NewPlayer 0,
        NewBrick zero3 one3 ''#C0C0C0''] process_start ! 0)
     (constructions [NewBrick zero3 one3 ''#C0C0C0'', NewPlayer 0,
        NewBrick zero3 one3 ''#C0C0C0''] process_start ! 2)"
  using netId_unique [of 0 2 "[NewBrick zero3 one3 ''#C0C0C0'', NewPlayer 0,
      NewBrick zero3 one3 ''#C0C0C0'']"]
  by (simp add: process_start_def Brick_new_def Player_new_def)

section \<open>The serializer's round trip\<close>

text \<open>
  An assignment changes the one field its property names, so what a field holds after
  the loop over the keys is decided by the last entry of its key.
\<close>

lemma step_position:
  "assignProp k v b = Some b' \<Longrightarrow> position b' = (if k = ''position'' then to_vec v else position b)"
  by (auto simp add: assignProp_def to_vec_def split: jsval.splits if_splits)
lemma step_scale:
  "assignProp k v b = Some b' \<Longrightarrow> scale b' = (if k = ''scale'' then to_vec v else scale b)"
  by (auto simp add: assignProp_def to_vec_def split: jsval.splits if_splits)
lemma step_rotation:
  "assignProp k v b = Some b' \<Longrightarrow> rotation b' = (if k = ''rotation'' then to_vec v else rotation b)"
  by (auto simp add: assignProp_def to_vec_def split: jsval.splits if_splits)
lemma step_color:
  "assignProp k v b = Some b' \<Longrightarrow> color b' = (if k = ''color'' then to_str v else color b)"
  by (auto simp add: assignProp_def to_str_def split: jsval.splits if_splits)
lemma step_lightColor:
  "assignProp k v b = Some b' \<Longrightarrow> lightColor b' = (if k = ''lightColor'' then to_str v else lightColor b)"
  by (auto simp add: assignProp_def to_str_def split: jsval.splits if_splits)
lemma step_name:
  "assignProp k v b = Some b' \<Longrightarrow> name b' = (if k = ''name'' then Some (to_str v) else name b)"
  by (auto simp add: assignProp_def to_str_def split: jsval.splits if_splits)
lemma step_visibility:
  "assignProp k v b = Some b' \<Longrightarrow> visibility b' = (if k = ''visibility'' then val_num v else visibility b)"
  by (auto simp add: assignProp_def split: jsval.splits if_splits)
lemma step_clickDistance:
  "assignProp k v b = Some b' \<Longrightarrow> clickDistance b' = (if k = ''clickDistance'' then val_num v else clickDistance b)"
  by (auto simp add: assignProp_def split: jsval.splits if_splits)
lemma step_model:
  "assignProp k v b = Some b' \<Longrightarrow> model b' = (if k = ''model'' then Some (val_num v) else model b)"
  by (auto simp add: assignProp_def split: jsval.splits if_splits)
lemma step_collision:
  "assignProp k v b = Some b' \<Longrightarrow> collision b' = (if k = ''collision'' then to_bool v else collision b)"
  by (auto simp add: assignProp_def to_bool_def split: jsval.splits if_splits)
lemma step_lightEnabled:
  "assignProp k v b = Some b' \<Longrightarrow> lightEnabled b' = (if k = ''lightEnabled'' then to_bool v else lightEnabled b)"
  by (auto simp add: assignProp_def to_bool_def split: jsval.splits if_splits)
lemma step_clickable:
  "assignProp k v b = Some b' \<Longrightarrow> clickable b' = (if k = ''clickable'' then to_bool v else clickable b)"
  by (auto simp add: assignProp_def to_bool_def split: jsval.splits if_splits)
lemma step_lightRange:
  "assignProp k v b = Some b' \<Longrightarrow> lightRange b' = (if k = ''lightRange'' then to_any v else lightRange b)"
  by (auto simp add: assignProp_def to_any_def split: jsval.splits if_splits)

lemma assignAll_snoc:
  "assignAll (d @ [(k, v)]) b =
     (case assignAll d b of None \<Rightarrow> None | Some b' \<Rightarrow> assignProp k v b')"
  by (induction d arbitrary: b) (auto split: option.splits)

lemma entries_snoc:
  "entries K (d @ [(k, v)]) = (if k = K then entries K d @ [(k, v)] else entries K d)"
  by (simp add: entries_def)

lemma assignAll_field:
  assumes step: "\<And>k v b b'. assignProp k v b = Some b' \<Longrightarrow> f b' = (if k = K then conv v else f b)"
  shows "assignAll d b0 = Some b' \<Longrightarrow>
     f b' = (if entries K d = [] then f b0 else conv (snd (last (entries K d))))"
proof (induction d arbitrary: b' rule: rev_induct)
  case Nil
  then show ?case by (simp add: entries_def)
next
  case (snoc kv d)
  obtain k v where kv: "kv = (k, v)" by (cases kv)
  from snoc.prems obtain b'' where
    1: "assignAll d b0 = Some b''" and 2: "assignProp k v b'' = Some b'"
    by (auto simp add: kv assignAll_snoc split: option.splits)
  show ?case
    using step [OF 2] snoc.IH [OF 1] by (simp add: kv entries_snoc)
qed

lemma entries_append: "entries K (xs @ ys) = entries K xs @ entries K ys"
  by (simp add: entries_def)

lemma entries_emit_if: "entries K (emit_if c kvs) = emit_if c (entries K kvs)"
  by (simp add: entries_def emit_if_def)

lemma entries_Cons:
  "entries K ((k, v) # d) = (if k = K then (k, v) # entries K d else entries K d)"
  by (simp add: entries_def)

lemma entries_Nil: "entries K [] = []"
  by (simp add: entries_def)

lemma emit_if_Nil: "emit_if c [] = []"
  by (simp add: emit_if_def)

lemma entries_case_option:
  "entries K (case x of None \<Rightarrow> [] | Some s \<Rightarrow> g s) = (case x of None \<Rightarrow> [] | Some s \<Rightarrow> entries K (g s))"
  by (simp add: entries_def split: option.splits)

lemmas entries_simps = entries_append entries_emit_if entries_Cons entries_Nil emit_if_Nil
  entries_case_option

lemma entries_position:
  "entries ''position'' (brick_data b) =
     emit_if (\<not> equalsVector (position b) (position DEFAULT_BRICK))
       [(''position'', vec_array (position b))]"
  by (simp add: brick_data_def entries_simps split: option.splits)

lemma entries_scale:
  "entries ''scale'' (brick_data b) =
     emit_if (\<not> equalsVector (scale b) (scale DEFAULT_BRICK)) [(''scale'', vec_array (scale b))]"
  by (simp add: brick_data_def entries_simps split: option.splits)

lemma entries_rotation:
  "entries ''rotation'' (brick_data b) =
     emit_if (\<not> equalsVector (rotation b) (rotation DEFAULT_BRICK))
       [(''rotation'', vec_array (rotation b))]"
  by (simp add: brick_data_def entries_simps split: option.splits)

lemma entries_color:
  "entries ''color'' (brick_data b) =
     emit_if (color b \<noteq> color DEFAULT_BRICK) [(''color'', JStr (color b))]"
  by (simp add: brick_data_def entries_simps split: option.splits)

lemma entries_visibility:
  "entries ''visibility'' (brick_data b) =
     emit_if (num_lt (visibility b) (Num 1)) [(''visibility'', JNum (visibility b))]"
  by (simp add: brick_data_def entries_simps split: option.splits)

lemma entries_collision:
  "entries ''collision'' (brick_data b) = emit_if (\<not> collision b) [(''collision'', JBool False)]"
  by (simp add: brick_data_def entries_simps split: option.splits)

lemma entries_name:
  "entries ''name'' (brick_data b) =
     (case name b of None \<Rightarrow> [] | Some s \<Rightarrow> emit_if (s \<noteq> []) [(''name'', JStr s)])"
  by (simp add: brick_data_def entries_simps split: option.splits)

lemma entries_model:
  "entries ''model'' (brick_data b) =
     (case model b of None \<Rightarrow> [] | Some m \<Rightarrow> emit_if (num_truthy m) [(''model'', JNum m)])"
  by (simp add: brick_data_def entries_simps split: option.splits)

lemma entries_lightEnabled:
  "entries ''lightEnabled'' (brick_data b) = emit_if (lightEnabled b) [(''lightEnabled'', JBool True)]"
  by (simp add: brick_data_def entries_simps split: option.splits)

lemma entries_lightColor:
  "entries ''lightColor'' (brick_data b) =
     emit_if (lightEnabled b) [(''lightColor'', JStr (lightColor b))]"
  by (simp add: brick_data_def entries_simps split: option.splits)

lemma entries_lightRange:
  "entries ''lightRange'' (brick_data b) = emit_if (lightEnabled b) [(''lightRange'', lightRange b)]"
  by (simp add: brick_data_def entries_simps split: option.splits)

lemma entries_clickable:
  "entries ''clickable'' (brick_data b) = emit_if (clickable b) [(''clickable'', JBool True)]"
  by (simp add: brick_data_def entries_simps split: option.splits)

lemma entries_clickDistance:
  "entries ''clickDistance'' (brick_data b) =
     emit_if (clickable b) [(''clickDistance'', JNum (clickDistance b))]"
  by (simp add: brick_data_def entries_simps split: option.splits)

lemma assignProp_storable: "assignProp k v b \<noteq> None \<longleftrightarrow> storable (k, v)"
  by (simp add: storable_def assignProp_def split: jsval.splits)

lemma assignAll_total: "list_all storable d \<Longrightarrow> \<exists>b'. assignAll d b = Some b'"
proof (induction d arbitrary: b)
  case Nil
  show ?case by simp
next
  case (Cons kv d)
  obtain k v where kv: "kv = (k, v)" by (cases kv)
  have "storable (k, v)" using Cons.prems kv by simp
  then obtain b1 where b1: "assignProp k v b = Some b1"
    using assignProp_storable [of k v b] by auto
  have "list_all storable d" using Cons.prems by simp
  from Cons.IH [OF this, of b1] show ?case by (simp add: kv b1)
qed

lemma list_all_emit_if: "list_all P (emit_if c kvs) = (c \<longrightarrow> list_all P kvs)"
  by (simp add: emit_if_def)

lemma storable_facts:
  "storable (''position'', vec_array u)"
  "storable (''scale'', vec_array u)"
  "storable (''rotation'', vec_array u)"
  "storable (''color'', JStr s)"
  "storable (''name'', JStr s)"
  "storable (''lightColor'', JStr s)"
  "storable (''visibility'', JNum n)"
  "storable (''model'', JNum n)"
  "storable (''clickDistance'', JNum n)"
  "storable (''collision'', JBool t)"
  "storable (''lightEnabled'', JBool t)"
  "storable (''clickable'', JBool t)"
  by (simp_all add: storable_def assignProp_def vec_array_def)

lemma storable_lightRange: "storable (''lightRange'', v)"
  by (simp add: storable_def assignProp_def split: jsval.splits)

lemma brick_data_storable: "list_all storable (brick_data b)"
  by (simp add: brick_data_def list_all_emit_if storable_facts storable_lightRange
      split: option.splits)

lemma map_of_entries:
  "map_of d k = (case entries k d of [] \<Rightarrow> None | kv # _ \<Rightarrow> Some (snd kv))"
  by (induction d) (auto simp add: entries_def)

lemma equalsVector_zero3: "equalsVector u zero3 \<Longrightarrow> u = zero3"
  by (cases u; cases "vx u"; cases "vy u"; cases "vz u")
     (simp_all add: equalsVector_def zero3_def)

lemma equalsVector_one3: "equalsVector u one3 \<Longrightarrow> u = one3"
  by (cases u; cases "vx u"; cases "vy u"; cases "vz u")
     (simp_all add: equalsVector_def one3_def)

lemma default_fields:
  "position DEFAULT_BRICK = zero3" "scale DEFAULT_BRICK = one3"
  "rotation DEFAULT_BRICK = zero3" "color DEFAULT_BRICK = ''#C0C0C0''"
  "visibility DEFAULT_BRICK = Num 1" "collision DEFAULT_BRICK"
  "name DEFAULT_BRICK = None" "model DEFAULT_BRICK = None"
  "\<not> lightEnabled DEFAULT_BRICK" "lightColor DEFAULT_BRICK = ''#000000''"
  "lightRange DEFAULT_BRICK = JNum (Num 5)"
  "\<not> clickable DEFAULT_BRICK" "clickDistance DEFAULT_BRICK = Num 50"
  by (simp_all add: DEFAULT_BRICK_def Brick_default_def Brick_new_def)

lemma to_vec_array: "to_vec (vec_array u) = u"
  by (simp add: to_vec_def vec_array_def Vector3_spread_def)

lemma emit_if_const [simp]: "emit_if True kvs = kvs" "emit_if False kvs = []"
  by (simp_all add: emit_if_def)

lemma emit_if_empty: "emit_if c [kv] = [] \<longleftrightarrow> \<not> c"
  by (simp add: emit_if_def)

lemma last_emit_if: "c \<Longrightarrow> last (emit_if c [kv]) = kv"
  by (simp add: emit_if_def)

lemma revive_one:
  "\<exists>b'. reviveBrick (brick_data b) n = Some (b', n + 1) \<and> round_trip b b'"
proof -
  let ?d = "brick_data b"
  let ?b0 = "fst (Brick_new (arg_vector (map_of ?d ''position'') zero3)
                     (arg_vector (map_of ?d ''scale'') one3)
                     (arg_string (map_of ?d ''color'') ''#C0C0C0'') n)"
  obtain b' where b': "assignAll ?d ?b0 = Some b'"
    using assignAll_total [OF brick_data_storable] by blast
  have r: "reviveBrick ?d n = Some (b', n + 1)"
    using b' by (simp add: reviveBrick_def Brick_new_def)
  have b0: "rotation ?b0 = zero3" "visibility ?b0 = Num 1" "collision ?b0" "name ?b0 = None"
    "model ?b0 = None" "\<not> lightEnabled ?b0" "lightColor ?b0 = ''#000000''"
    "lightRange ?b0 = JNum (Num 5)" "\<not> clickable ?b0" "clickDistance ?b0 = Num 50"
    by (simp_all add: Brick_new_def)
  have p: "position b' = position b"
    using assignAll_field [of position "''position''" to_vec, OF step_position b']
      equalsVector_zero3 [of "position b"]
    by (auto simp add: entries_position emit_if_empty last_emit_if to_vec_array default_fields
        Brick_new_def map_of_entries arg_vector_def)
  have s: "scale b' = scale b"
    using assignAll_field [of scale "''scale''" to_vec, OF step_scale b']
      equalsVector_one3 [of "scale b"]
    by (auto simp add: entries_scale emit_if_empty last_emit_if to_vec_array default_fields
        Brick_new_def map_of_entries arg_vector_def)
  have c: "color b' = color b"
    using assignAll_field [of color "''color''" to_str, OF step_color b']
    by (auto simp add: entries_color emit_if_empty last_emit_if to_str_def default_fields
        Brick_new_def map_of_entries arg_string_def)
  have ro: "rotation b' = rotation b"
    using assignAll_field [of rotation "''rotation''" to_vec, OF step_rotation b']
      equalsVector_zero3 [of "rotation b"]
    by (auto simp add: entries_rotation emit_if_empty last_emit_if to_vec_array default_fields b0)
  have co: "collision b' = collision b"
    using assignAll_field [of collision "''collision''" to_bool, OF step_collision b']
    by (auto simp add: entries_collision emit_if_empty last_emit_if to_bool_def b0)
  have v: "visibility b' = (if num_lt (visibility b) (Num 1) then visibility b else Num 1)"
    using assignAll_field [of visibility "''visibility''" val_num, OF step_visibility b']
    by (auto simp add: entries_visibility emit_if_empty last_emit_if b0)
  have na: "name b' = name_kept b"
    using assignAll_field [of name "''name''" "\<lambda>v. Some (to_str v)", OF step_name b']
    by (auto simp add: entries_name emit_if_empty last_emit_if to_str_def b0 name_kept_def
        split: option.splits)
  have mo: "model b' = model_kept b"
    using assignAll_field [of model "''model''" "\<lambda>v. Some (val_num v)", OF step_model b']
    by (auto simp add: entries_model emit_if_empty last_emit_if b0 model_kept_def
        split: option.splits)
  have le: "lightEnabled b' = lightEnabled b"
    using assignAll_field [of lightEnabled "''lightEnabled''" to_bool, OF step_lightEnabled b']
    by (auto simp add: entries_lightEnabled emit_if_empty last_emit_if to_bool_def b0)
  have lc: "lightColor b' = (if lightEnabled b then lightColor b else ''#000000'')"
    using assignAll_field [of lightColor "''lightColor''" to_str, OF step_lightColor b']
    by (auto simp add: entries_lightColor emit_if_empty last_emit_if to_str_def b0)
  have lr: "lightRange b' = (if lightEnabled b then to_any (lightRange b) else JNum (Num 5))"
    using assignAll_field [of lightRange "''lightRange''" to_any, OF step_lightRange b']
    by (auto simp add: entries_lightRange emit_if_empty last_emit_if b0)
  have cl: "clickable b' = clickable b"
    using assignAll_field [of clickable "''clickable''" to_bool, OF step_clickable b']
    by (auto simp add: entries_clickable emit_if_empty last_emit_if to_bool_def b0)
  have cd: "clickDistance b' = (if clickable b then clickDistance b else Num 50)"
    using assignAll_field [of clickDistance "''clickDistance''" val_num, OF step_clickDistance b']
    by (auto simp add: entries_clickDistance emit_if_empty last_emit_if b0)
  have "round_trip b b'"
    unfolding round_trip_def using p s c ro co v na mo le lc lr cl cd by blast
  then show ?thesis using r by blast
qed

lemma revive_all:
  "\<exists>bs'. reviveAll (map brick_data bs) n = Some (bs', n + length bs) \<and>
         list_all2 round_trip bs bs'"
proof (induction bs arbitrary: n)
  case Nil
  show ?case by simp
next
  case (Cons b bs)
  obtain b' where b': "reviveBrick (brick_data b) n = Some (b', n + 1)" "round_trip b b'"
    using revive_one [of b n] by blast
  obtain bs' where bs': "reviveAll (map brick_data bs) (n + 1) = Some (bs', n + 1 + length bs)"
    "list_all2 round_trip bs bs'"
    using Cons.IH [of "n + 1"] by blast
  show ?case using b' bs' by simp
qed

lemma keys_entries: "k \<in> keys d \<longleftrightarrow> entries k d \<noteq> []"
  by (auto simp add: keys_def entries_def filter_empty_conv)

lemma equalsVector_refl_zero3: "equalsVector zero3 zero3" "equalsVector one3 one3"
  by (simp_all add: equalsVector_def zero3_def one3_def)

lemma omitted_defaults:
  "(position b = position DEFAULT_BRICK \<longrightarrow> ''position'' \<notin> keys (brick_data b)) \<and>
   (scale b = scale DEFAULT_BRICK \<longrightarrow> ''scale'' \<notin> keys (brick_data b)) \<and>
   (color b = color DEFAULT_BRICK \<longrightarrow> ''color'' \<notin> keys (brick_data b)) \<and>
   (visibility b = visibility DEFAULT_BRICK \<longrightarrow> ''visibility'' \<notin> keys (brick_data b)) \<and>
   (collision b = collision DEFAULT_BRICK \<longrightarrow> ''collision'' \<notin> keys (brick_data b)) \<and>
   (name b = name DEFAULT_BRICK \<longrightarrow> ''name'' \<notin> keys (brick_data b)) \<and>
   (rotation b = rotation DEFAULT_BRICK \<longrightarrow> ''rotation'' \<notin> keys (brick_data b)) \<and>
   (model b = model DEFAULT_BRICK \<longrightarrow> ''model'' \<notin> keys (brick_data b)) \<and>
   (lightEnabled b = lightEnabled DEFAULT_BRICK \<longrightarrow>
      ''lightEnabled'' \<notin> keys (brick_data b) \<and> ''lightColor'' \<notin> keys (brick_data b) \<and>
      ''lightRange'' \<notin> keys (brick_data b)) \<and>
   (clickable b = clickable DEFAULT_BRICK \<longrightarrow>
      ''clickable'' \<notin> keys (brick_data b) \<and> ''clickDistance'' \<notin> keys (brick_data b))"
  by (simp add: keys_entries entries_position entries_scale entries_color entries_visibility
      entries_collision entries_name entries_rotation entries_model entries_lightEnabled
      entries_lightColor entries_lightRange entries_clickable entries_clickDistance
      default_fields equalsVector_refl_zero3)

text \<open>
  Claim C5, amended. For every list of bricks whose serialized objects the platform codec
  gives back as they were, \<open>deserialize(serialize(bricks))\<close> yields as many new bricks,
  in order, and each has the position, scale, color, rotation, collision, lightEnabled and
  clickable of its original; its visibility when that is below 1 (else 1); its name and
  model when they are truthy (else none); its lightColor and lightRange when lightEnabled
  is set (else the defaults), an array in lightRange coming back as a Vector3; and its
  clickDistance when clickable is set (else 50). The serialized object of a brick has no
  \<open>position\<close>, \<open>scale\<close>, \<open>color\<close>, \<open>visibility\<close>, \<open>collision\<close>, \<open>name\<close>,
  \<open>rotation\<close> or \<open>model\<close> key when the brick's value is the default brick's, no light
  key when lightEnabled is off and no click key when clickable is off; with lightEnabled
  set lightColor and lightRange are written, and with clickable set clickDistance is,
  default or not.
\<close>

theorem serialize_round_trip:
  assumes "decode c (encode c (map brick_data bs)) = map brick_data bs"
  shows "(\<exists>bs'. deserialize c n (serialize c bs) = Some (bs', n + length bs) \<and>
            list_all2 round_trip bs bs') \<and>
         (\<forall>b \<in> set bs.
            (position b = position DEFAULT_BRICK \<longrightarrow> ''position'' \<notin> keys (brick_data b)) \<and>
            (scale b = scale DEFAULT_BRICK \<longrightarrow> ''scale'' \<notin> keys (brick_data b)) \<and>
            (color b = color DEFAULT_BRICK \<longrightarrow> ''color'' \<notin> keys (brick_data b)) \<and>
            (visibility b = visibility DEFAULT_BRICK \<longrightarrow> ''visibility'' \<notin> keys (brick_data b)) \<and>
            (collision b = collision DEFAULT_BRICK \<longrightarrow> ''collision'' \<notin> keys (brick_data b)) \<and>
            (name b = name DEFAULT_BRICK \<longrightarrow> ''name'' \<notin> keys (brick_data b)) \<and>
            (rotation b = rotation DEFAULT_BRICK \<longrightarrow> ''rotation'' \<notin> keys (brick_data b)) \<and>
            (model b = model DEFAULT_BRICK \<longrightarrow> ''model'' \<notin> keys (brick_data b)) \<and>
            (lightEnabled b = lightEnabled DEFAULT_BRICK \<longrightarrow>
               ''lightEnabled'' \<notin> keys (brick_data b) \<and> ''lightColor'' \<notin> keys (brick_data b) \<and>
               ''lightRange'' \<notin> keys (brick_data b)) \<and>
            (clickable b = clickable DEFAULT_BRICK \<longrightarrow>
               ''clickable'' \<notin> keys (brick_data b) \<and> ''clickDistance'' \<notin> keys (brick_data b)))"
proof -
  have "deserialize c n (serialize c bs) = reviveAll (map brick_data bs) n"
    using assms by (simp add: deserialize_def serialize_def)
  then have 1: "\<exists>bs'. deserialize c n (serialize c bs) = Some (bs', n + length bs) \<and>
            list_all2 round_trip bs bs'"
    using revive_all [of bs n] by simp
  show ?thesis using 1 omitted_defaults by blast
qed

lemma example_wall_data:
  "brick_data example_wall =
     [(''position'', JArr [Num 1, Num 2, Num 3]), (''scale'', JArr [Num 4, Num 4, Num 4]),
      (''color'', JStr ''#ff0000''), (''visibility'', JNum (Num (1 / 2))),
      (''name'', JStr ''wall''), (''clickable'', JBool True), (''clickDistance'', JNum (Num 30))]"
  by (simp add: brick_data_def example_wall_def Brick_new_def default_fields equalsVector_def
      zero3_def one3_def vec_array_def)

lemma example_wall_back:
  "reviveAll [brick_data example_wall] 1 =
     Some ([(fst (Brick_new (Vector3 (Num 1) (Num 2) (Num 3)) (Vector3 (Num 4) (Num 4) (Num 4))
               ''#ff0000'' 1))
            \<lparr>name := Some ''wall'', visibility := Num (1 / 2), clickable := True,
             clickDistance := Num 30\<rparr>], 2)"
  by (simp add: example_wall_data reviveBrick_def assignProp_def Brick_new_def arg_vector_def
      arg_string_def Vector3_spread_def)

theorem serialize_round_trip_witness:
  "decode lossless (encode lossless (map brick_data [example_wall])) =
     map brick_data [example_wall] \<and>
   deserialize lossless 1 (serialize lossless [example_wall]) =
     Some ([(fst (Brick_new (Vector3 (Num 1) (Num 2) (Num 3)) (Vector3 (Num 4) (Num 4) (Num 4))
               ''#ff0000'' 1))
            \<lparr>name := Some ''wall'', visibility := Num (1 / 2), clickable := True,
             clickDistance := Num 30\<rparr>], 2) \<and>
   rotation example_wall = rotation DEFAULT_BRICK \<and>
   ''rotation'' \<notin> keys (brick_data example_wall) \<and>
   collision example_wall = collision DEFAULT_BRICK \<and>
   ''collision'' \<notin> keys (brick_data example_wall) \<and>
   lightEnabled example_wall = lightEnabled DEFAULT_BRICK \<and>
   ''lightColor'' \<notin> keys (brick_data example_wall)"
proof -
  have h: "decode lossless (encode lossless (map brick_data [example_wall])) =
     map brick_data [example_wall]"
    by (simp add: lossless_def)
  have d: "rotation example_wall = rotation DEFAULT_BRICK"
    "collision example_wall = collision DEFAULT_BRICK"
    "lightEnabled example_wall = lightEnabled DEFAULT_BRICK"
    by (simp_all add: example_wall_def Brick_new_def default_fields)
  have r: "deserialize lossless 1 (serialize lossless [example_wall]) =
      reviveAll [brick_data example_wall] 1"
    by (simp add: deserialize_def serialize_def lossless_def)
  have res: "deserialize lossless 1 (serialize lossless [example_wall]) =
     Some ([(fst (Brick_new (Vector3 (Num 1) (Num 2) (Num 3)) (Vector3 (Num 4) (Num 4) (Num 4))
               ''#ff0000'' 1))
            \<lparr>name := Some ''wall'', visibility := Num (1 / 2), clickable := True,
             clickDistance := Num 30\<rparr>], 2)"
    unfolding r by (rule example_wall_back)
  show ?thesis
    using serialize_round_trip [OF h, of 1] h d res by simp
qed

text \<open>
  Claim C5 as stated fails on both halves. A brick that is not clickable but has the click
  distance 30 (as \<open>setClickable(false, 30)\<close> leaves it) comes back with the default 50;
  and the object written for a brick with lightEnabled set holds the light colour although
  it is the default brick's.
\<close>

theorem non_default_field_lost_counterexample:
  "clickDistance ((fst (Brick_default 0))\<lparr>clickDistance := Num 30\<rparr>) = Num 30 \<and>
   clickDistance DEFAULT_BRICK = Num 50 \<and>
   deserialize lossless 1 (serialize lossless [(fst (Brick_default 0))\<lparr>clickDistance := Num 30\<rparr>]) =
     Some ([fst (Brick_default 1)], 2) \<and>
   clickDistance (fst (Brick_default 1)) = Num 50 \<and>
   lightColor ((fst (Brick_default 0))\<lparr>lightEnabled := True\<rparr>) = lightColor DEFAULT_BRICK \<and>
   brick_data ((fst (Brick_default 0))\<lparr>lightEnabled := True\<rparr>) =
     [(''lightEnabled'', JBool True), (''lightColor'', JStr ''#000000''),
      (''lightRange'', JNum (Num 5))]"
  by (simp add: deserialize_def serialize_def lossless_def brick_data_def reviveBrick_def
      Brick_default_def Brick_new_def default_fields equalsVector_def zero3_def one3_def
      arg_vector_def arg_string_def)

section \<open>Loading a map\<close>






lemma trim_examples:
  "trim ''B R I C K  W O R K S H O P  V0.2.0.0'' = ''B R I C K  W O R K S H O P  V0.2.0.0''"
  "trim ''0 0 0 5 5 5 255 255 255 1'' = ''0 0 0 5 5 5 255 255 255 1''"
  "trim (''B R I C K  W O R K S H O P  V0.2.0.0'' @ [CHR 0x0D]) =
     ''B R I C K  W O R K S H O P  V0.2.0.0''"
  "trim ([CHR 0xEF, CHR 0xBB, CHR 0xBF] @ ''B R I C K  W O R K S H O P  V0.2.0.0'' @
      [CHR 0xC2, CHR 0xA0, CHR 0x20]) = ''B R I C K  W O R K S H O P  V0.2.0.0''"
  "trim ''B R I C K  W O R K S H O P  V0.1.0.0'' = ''B R I C K  W O R K S H O P  V0.1.0.0''"
  by (simp_all add: trim_def space1_def space2_def space3_def)





text \<open>
  A header behind a byte order mark and before a no-break space is the signature once it
  is trimmed, and is accepted.
\<close>

lemma bom_header:
  "loadLine cm ([CHR 0xEF, CHR 0xBB, CHR 0xBF] @ ''B R I C K  W O R K S H O P  V0.2.0.0'' @
      [CHR 0xC2, CHR 0xA0, CHR 0x20]) (loader_start n) =
     Inr ((loader_start n)\<lparr>totalLines := 1\<rparr>)"
  by (simp add: loadLine_def trim_examples signature_def loader_start_def Let_def
      del: append.simps)







end
